theory Spec2Isabelle
  imports Main "HOL-Library.AList"
begin

section \<open>Time and JSON documents\<close>

text \<open>
  Python's \<open>datetime\<close> has microsecond resolution: a timestamp is the number of
  microseconds since the epoch, an \<open>int\<close>. A duration given in seconds is scaled by
  \<open>seconds\<close>.
\<close>

type_synonym timestamp = int

definition seconds :: "int \<Rightarrow> int" where
  "seconds n = n * 1000000"

text \<open>
  The values stored in a JSON document, as far as the code builds them, and the document
  itself as an insertion-ordered association list (a Python \<open>dict\<close>).
\<close>

datatype jvalue = JStr string | JInt int | JTime timestamp | JAny nat

type_synonym jdict = "(string \<times> jvalue) list"

text \<open>\<open>d.update({k: v})\<close>: a present key keeps its place, a new key goes last.\<close>

definition dict_set :: "string \<Rightarrow> jvalue \<Rightarrow> jdict \<Rightarrow> jdict" where
  "dict_set k v d = AList.update k v d"

section \<open>api/websocket.py: the transport\<close>

text \<open>
  The WebSocket is an external collaborator. The model keeps what the manager reads and
  what the manager makes it do: the client state, the documents handed to \<open>send_json\<close>,
  the \<open>close\<close> calls, and a script saying what each coming call does (return, raise
  \<open>WebSocketDisconnect\<close>, raise another exception). An exhausted script means that every
  further call returns normally. A call that raises leaves the transport as it was; an
  \<open>accept\<close> that returns leaves the client state \<open>CONNECTED\<close>, a \<open>close\<close>
  that returns leaves it \<open>DISCONNECTED\<close>, which is what the manager reads to tell a
  closed transport.
\<close>

datatype WebSocketState = WS_CONNECTING | WS_CONNECTED | WS_DISCONNECTED

datatype ws_outcome = Returns | Raises_WebSocketDisconnect | Raises_Exception

record WebSocket =
  client_state :: WebSocketState
  sent_json :: "jdict list"
  close_calls :: "(int \<times> string) list"
  script :: "ws_outcome list"

datatype ws_error = WebSocketDisconnect | TransportException

definition ws_call :: "WebSocket \<Rightarrow> ws_outcome \<times> WebSocket" where
  "ws_call ws = (case script ws of
       [] \<Rightarrow> (Returns, ws)
     | r # rs \<Rightarrow> (r, ws\<lparr>script := rs\<rparr>))"

definition ws_result :: "ws_outcome \<Rightarrow> WebSocket \<Rightarrow> WebSocket \<Rightarrow> (ws_error \<times> WebSocket) + WebSocket" where
  "ws_result r failed done = (case r of
       Returns \<Rightarrow> Inr done
     | Raises_WebSocketDisconnect \<Rightarrow> Inl (WebSocketDisconnect, failed)
     | Raises_Exception \<Rightarrow> Inl (TransportException, failed))"

definition ws_accept :: "WebSocket \<Rightarrow> (ws_error \<times> WebSocket) + WebSocket" where
  "ws_accept ws = (case ws_call ws of (r, ws') \<Rightarrow>
     ws_result r ws' (ws'\<lparr>client_state := WS_CONNECTED\<rparr>))"

definition ws_send_json :: "jdict \<Rightarrow> WebSocket \<Rightarrow> (ws_error \<times> WebSocket) + WebSocket" where
  "ws_send_json doc ws = (case ws_call ws of (r, ws') \<Rightarrow>
     ws_result r ws' (ws'\<lparr>sent_json := sent_json ws' @ [doc]\<rparr>))"

definition ws_close :: "int \<Rightarrow> string \<Rightarrow> WebSocket \<Rightarrow> (ws_error \<times> WebSocket) + WebSocket" where
  "ws_close code reason ws = (case ws_call ws of (r, ws') \<Rightarrow>
     ws_result r ws'
       (ws'\<lparr>client_state := WS_DISCONNECTED, close_calls := close_calls ws' @ [(code, reason)]\<rparr>))"

section \<open>api/websocket.py: ConnectionManager\<close>

datatype ConnectionState = CONNECTED | DISCONNECTED | ERROR | RECONNECTING

record ConnectionInfo =
  websocket :: WebSocket
  state :: ConnectionState
  last_heartbeat :: timestamp
  connection_time :: timestamp
  retry_count :: int
  metadata :: jdict

record ConnectionManager =
  active_connections :: "string \<rightharpoonup> ConnectionInfo"
  terminal_pairs :: "string \<rightharpoonup> string set"
  message_buffer :: "string \<rightharpoonup> jdict list"

definition HEARTBEAT_INTERVAL :: int where "HEARTBEAT_INTERVAL = 30"
definition MAX_RETRY_ATTEMPTS :: int where "MAX_RETRY_ATTEMPTS = 3"
definition RECONNECT_TIMEOUT :: int where "RECONNECT_TIMEOUT = 60"

definition new_manager :: ConnectionManager where
  "new_manager = \<lparr>active_connections = Map.empty, terminal_pairs = Map.empty,
                  message_buffer = Map.empty\<rparr>"

text \<open>
  A message handed to the manager is a \<open>str\<close>, a \<open>dict\<close> or any other object.
  Every clock read of one call is taken at the same instant \<open>now\<close>. The text of a
  caught exception, which the manager only passes on as a close reason, is a fixed string.
\<close>

datatype message = MsgStr string | MsgDict jdict | MsgOther nat

definition prepare_message :: "timestamp \<Rightarrow> message \<Rightarrow> jdict" where
  "prepare_message now msg =
     (let d = (case msg of
                 MsgStr s \<Rightarrow> [(''content'', JStr s)]
               | MsgDict d \<Rightarrow> d
               | MsgOther x \<Rightarrow> [(''data'', JAny x)])
      in dict_set ''type'' (JStr ''message'') (dict_set ''timestamp'' (JTime now) d))"

text \<open>
  \<open>_prepare_message\<close> updates a \<open>dict\<close> argument in place, so after the call the
  caller's message is the prepared document; a \<open>str\<close> or other object is untouched.
\<close>

definition after_prepare :: "timestamp \<Rightarrow> message \<Rightarrow> message" where
  "after_prepare now msg = (case msg of MsgDict d \<Rightarrow> MsgDict (prepare_message now msg) | _ \<Rightarrow> msg)"

text \<open>The slice \<open>xs[-n:]\<close> for a positive \<open>n\<close>: the last \<open>n\<close> entries.\<close>

definition last_n :: "nat \<Rightarrow> 'a list \<Rightarrow> 'a list" where
  "last_n n xs = drop (length xs - n) xs"

definition buffer_message :: "timestamp \<Rightarrow> string \<Rightarrow> message \<Rightarrow> ConnectionManager \<Rightarrow> ConnectionManager" where
  "buffer_message now terminal_id msg m =
     (let buf = (case message_buffer m terminal_id of None \<Rightarrow> [] | Some b \<Rightarrow> b);
          buf' = buf @ [prepare_message now msg]
      in m\<lparr>message_buffer := (message_buffer m)(terminal_id \<mapsto>
              (if length buf' > 1000 then last_n 1000 buf' else buf'))\<rparr>)"

definition handle_disconnect :: "timestamp \<Rightarrow> string \<Rightarrow> ConnectionManager \<Rightarrow> ConnectionManager" where
  "handle_disconnect now terminal_id m =
     (case active_connections m terminal_id of
        None \<Rightarrow> m
      | Some c \<Rightarrow> m\<lparr>active_connections := (active_connections m)(terminal_id \<mapsto>
                      c\<lparr>state := DISCONNECTED, last_heartbeat := now\<rparr>)\<rparr>)"

text \<open>
  \<open>disconnect\<close> catches every exception and logs it: when \<open>close\<close> raises, the rest
  of the body is skipped and the connection keeps its state.
\<close>

definition disconnect :: "timestamp \<Rightarrow> string \<Rightarrow> int \<Rightarrow> string \<Rightarrow> ConnectionManager \<Rightarrow> ConnectionManager" where
  "disconnect now terminal_id code reason m =
     (case active_connections m terminal_id of
        None \<Rightarrow> m
      | Some c \<Rightarrow>
          (let closed = (if client_state (websocket c) \<noteq> WS_DISCONNECTED
                         then ws_close code reason (websocket c)
                         else Inr (websocket c))
           in case closed of
                Inl (e, ws') \<Rightarrow>
                  m\<lparr>active_connections := (active_connections m)(terminal_id \<mapsto> c\<lparr>websocket := ws'\<rparr>)\<rparr>
              | Inr ws' \<Rightarrow>
                  m\<lparr>active_connections := (active_connections m)(terminal_id \<mapsto>
                        c\<lparr>websocket := ws', state := DISCONNECTED, last_heartbeat := now\<rparr>),
                    message_buffer := (case message_buffer m terminal_id of
                        None \<Rightarrow> (message_buffer m)(terminal_id \<mapsto> [])
                      | Some b \<Rightarrow> message_buffer m)\<rparr>))"

definition handle_connection_error :: "timestamp \<Rightarrow> string \<Rightarrow> string \<Rightarrow> ConnectionManager \<Rightarrow> ConnectionManager" where
  "handle_connection_error now terminal_id error m =
     (case active_connections m terminal_id of
        None \<Rightarrow> m
      | Some c \<Rightarrow>
          (let c' = c\<lparr>state := ERROR, retry_count := retry_count c + 1\<rparr>;
               m' = m\<lparr>active_connections := (active_connections m)(terminal_id \<mapsto> c')\<rparr>
           in if retry_count c' > MAX_RETRY_ATTEMPTS
              then disconnect now terminal_id 1011 (''Max retries exceeded: '' @ error) m'
              else m'\<lparr>active_connections := (active_connections m')(terminal_id \<mapsto>
                         c'\<lparr>state := RECONNECTING\<rparr>)\<rparr>))"

definition send_message :: "timestamp \<Rightarrow> string \<Rightarrow> message \<Rightarrow> bool \<Rightarrow> ConnectionManager \<Rightarrow> bool \<times> ConnectionManager" where
  "send_message now terminal_id msg retry m =
     (case active_connections m terminal_id of
        None \<Rightarrow> (False, if retry then buffer_message now terminal_id msg m else m)
      | Some c \<Rightarrow>
          if state c \<noteq> CONNECTED
          then (False, if retry then buffer_message now terminal_id msg m else m)
          else (case ws_send_json (prepare_message now msg) (websocket c) of
                  Inr ws' \<Rightarrow>
                    (True, m\<lparr>active_connections := (active_connections m)(terminal_id \<mapsto>
                                 c\<lparr>websocket := ws'\<rparr>)\<rparr>)
                | Inl (e, ws') \<Rightarrow>
                    (let m1 = m\<lparr>active_connections := (active_connections m)(terminal_id \<mapsto>
                                   c\<lparr>websocket := ws'\<rparr>)\<rparr>;
                         m2 = (case e of
                                 WebSocketDisconnect \<Rightarrow> handle_disconnect now terminal_id m1
                               | TransportException \<Rightarrow>
                                   handle_connection_error now terminal_id ''send failed'' m1)
                     in (False, if retry
                                then buffer_message now terminal_id (after_prepare now msg) m2
                                else m2))))"

fun send_each :: "timestamp \<Rightarrow> string \<Rightarrow> jdict list \<Rightarrow> ConnectionManager \<Rightarrow> ConnectionManager" where
  "send_each now terminal_id [] m = m"
| "send_each now terminal_id (d # ds) m =
     send_each now terminal_id ds (snd (send_message now terminal_id (MsgDict d) True m))"

definition send_buffered_messages :: "timestamp \<Rightarrow> string \<Rightarrow> ConnectionManager \<Rightarrow> ConnectionManager" where
  "send_buffered_messages now terminal_id m =
     (case message_buffer m terminal_id of
        None \<Rightarrow> m
      | Some messages \<Rightarrow>
          if messages = [] then m
          else send_each now terminal_id messages
                 (m\<lparr>message_buffer := (message_buffer m)(terminal_id \<mapsto> [])\<rparr>))"

text \<open>
  \<open>connect\<close>: the buffer of the terminal is replaced by an empty list before
  \<open>_send_buffered_messages\<close> runs. When \<open>accept\<close> raises, the error handler runs on
  whatever connection the terminal already has.
\<close>

definition connect :: "timestamp \<Rightarrow> string \<Rightarrow> WebSocket \<Rightarrow> jdict option \<Rightarrow> ConnectionManager \<Rightarrow> ConnectionManager" where
  "connect now terminal_id ws md m =
     (case ws_accept ws of
        Inl (e, ws') \<Rightarrow> handle_connection_error now terminal_id ''accept failed'' m
      | Inr ws' \<Rightarrow>
          (let connection_info = \<lparr>websocket = ws', state = CONNECTED, last_heartbeat = now,
                                  connection_time = now, retry_count = 0,
                                  metadata = (case md of None \<Rightarrow> [] | Some d \<Rightarrow> d)\<rparr>;
               m1 = m\<lparr>active_connections := (active_connections m)(terminal_id \<mapsto> connection_info)\<rparr>;
               m2 = m1\<lparr>message_buffer := (message_buffer m1)(terminal_id \<mapsto> [])\<rparr>
           in send_buffered_messages now terminal_id m2))"

text \<open>
  One round of \<open>_connection_heartbeat\<close>, and the check \<open>_heartbeat_monitor\<close> makes
  on one connection.
\<close>

definition connection_heartbeat :: "timestamp \<Rightarrow> string \<Rightarrow> ConnectionManager \<Rightarrow> ConnectionManager" where
  "connection_heartbeat now terminal_id m =
     (case active_connections m terminal_id of
        None \<Rightarrow> m
      | Some c \<Rightarrow>
          if state c \<noteq> CONNECTED then m
          else (case ws_send_json [(''type'', JStr ''heartbeat''), (''timestamp'', JTime now)]
                       (websocket c) of
                  Inr ws' \<Rightarrow>
                    m\<lparr>active_connections := (active_connections m)(terminal_id \<mapsto>
                         c\<lparr>websocket := ws', last_heartbeat := now\<rparr>)\<rparr>
                | Inl (e, ws') \<Rightarrow>
                    handle_connection_error now terminal_id ''heartbeat failed''
                      (m\<lparr>active_connections := (active_connections m)(terminal_id \<mapsto>
                           c\<lparr>websocket := ws'\<rparr>)\<rparr>)))"

definition heartbeat_monitor :: "timestamp \<Rightarrow> string \<Rightarrow> ConnectionManager \<Rightarrow> ConnectionManager" where
  "heartbeat_monitor now terminal_id m =
     (case active_connections m terminal_id of
        None \<Rightarrow> m
      | Some c \<Rightarrow>
          if state c = CONNECTED \<and> now - last_heartbeat c > seconds (HEARTBEAT_INTERVAL * 2)
          then handle_connection_error now terminal_id ''Heartbeat timeout'' m
          else m)"

text \<open>
  The check \<open>_cleanup_disconnected\<close> makes on one connection, and the removal of a
  terminal's data.
\<close>

definition cleanup_terminal_data :: "string \<Rightarrow> ConnectionManager \<Rightarrow> ConnectionManager" where
  "cleanup_terminal_data terminal_id m =
     m\<lparr>active_connections := (active_connections m)(terminal_id := None),
       message_buffer := (message_buffer m)(terminal_id := None),
       terminal_pairs := (\<lambda>pair_id. case terminal_pairs m pair_id of
            None \<Rightarrow> None
          | Some terminals \<Rightarrow>
              if terminal_id \<in> terminals
              then (if terminals - {terminal_id} = {} then None
                    else Some (terminals - {terminal_id}))
              else Some terminals)\<rparr>"

definition cleanup_disconnected :: "timestamp \<Rightarrow> string \<Rightarrow> ConnectionManager \<Rightarrow> ConnectionManager" where
  "cleanup_disconnected now terminal_id m =
     (case active_connections m terminal_id of
        None \<Rightarrow> m
      | Some c \<Rightarrow>
          if state c = DISCONNECTED \<and> now - last_heartbeat c > seconds RECONNECT_TIMEOUT
          then cleanup_terminal_data terminal_id m
          else m)"

subsection \<open>Operation sequences and observations of the manager\<close>

text \<open>The capacity invariant of the pending buffers.\<close>

definition buffers_bounded :: "ConnectionManager \<Rightarrow> bool" where
  "buffers_bounded m = (\<forall>terminal_id b. message_buffer m terminal_id = Some b \<longrightarrow> length b \<le> 1000)"

text \<open>
  The operations through which the manager's public methods and background loops reach the
  connections and the buffers, and a run of a sequence of them.
\<close>

datatype manager_op =
    Connect timestamp string WebSocket "jdict option"
  | Disconnect timestamp string int string
  | Send_message timestamp string message bool
  | Buffer_message timestamp string message
  | Send_buffered_messages timestamp string
  | Handle_connection_error timestamp string string
  | Handle_disconnect timestamp string
  | Connection_heartbeat timestamp string
  | Heartbeat_monitor timestamp string
  | Cleanup_disconnected timestamp string
  | Cleanup_terminal_data string

fun apply_op :: "manager_op \<Rightarrow> ConnectionManager \<Rightarrow> ConnectionManager" where
  "apply_op (Connect now t ws md) m = connect now t ws md m"
| "apply_op (Disconnect now t code reason) m = disconnect now t code reason m"
| "apply_op (Send_message now t msg retry) m = snd (send_message now t msg retry m)"
| "apply_op (Buffer_message now t msg) m = buffer_message now t msg m"
| "apply_op (Send_buffered_messages now t) m = send_buffered_messages now t m"
| "apply_op (Handle_connection_error now t e) m = handle_connection_error now t e m"
| "apply_op (Handle_disconnect now t) m = handle_disconnect now t m"
| "apply_op (Connection_heartbeat now t) m = connection_heartbeat now t m"
| "apply_op (Heartbeat_monitor now t) m = heartbeat_monitor now t m"
| "apply_op (Cleanup_disconnected now t) m = cleanup_disconnected now t m"
| "apply_op (Cleanup_terminal_data t) m = cleanup_terminal_data t m"

definition run_ops :: "manager_op list \<Rightarrow> ConnectionManager \<Rightarrow> ConnectionManager" where
  "run_ops ops m = fold apply_op ops m"



definition transport :: "ConnectionManager \<Rightarrow> string \<Rightarrow> WebSocket option" where
  "transport m terminal_id = map_option websocket (active_connections m terminal_id)"

definition fresh_websocket :: WebSocket where
  "fresh_websocket = \<lparr>client_state = WS_CONNECTING, sent_json = [], close_calls = [], script = []\<rparr>"

definition connected_once :: ConnectionManager where
  "connected_once = connect 0 ''t1'' fresh_websocket None new_manager"

definition five_buffered :: ConnectionManager where
  "five_buffered =
     fold (\<lambda>(now, s) m. snd (send_message now ''t1'' (MsgStr s) True m))
       [(11, ''m1''), (12, ''m2''), (13, ''m3''), (14, ''m4''), (15, ''m5'')]
       (disconnect 10 ''t1'' 1000 ''bye'' connected_once)"

section \<open>ai/conversation.py: ConversationManager\<close>

datatype ConversationStatus = Conv_ACTIVE | Conv_PAUSED | Conv_ENDED | Conv_ERROR

text \<open>
  A message id is the f-string \<open>msg-{len(messages)}-{timestamp}\<close>: the two values
  that make it up.
\<close>

datatype message_id = Msg_id nat timestamp

text \<open>The TypedDict \<open>Message\<close>.\<close>

record ConvMessage =
  cm_id :: message_id
  cm_conversation_id :: string
  cm_content :: string
  cm_sender_id :: string
  cm_timestamp :: timestamp
  cm_metadata :: jdict
  cm_processed :: bool

text \<open>
  The TypedDict \<open>Conversation\<close>: a \<open>dict\<close> with exactly these string keys.
\<close>

record Conversation =
  conv_id :: string
  terminal1_id :: string
  terminal2_id :: string
  start_time :: timestamp
  last_activity :: timestamp
  status :: ConversationStatus
  messages :: "ConvMessage list"
  conv_metadata :: jdict

text \<open>
  Subscription \<open>conversation[key]\<close>. A key is a string or, as in
  \<open>conversation['terminal1_id', x]\<close>, the tuple the comma builds. A key that is not
  one of the dict's keys raises \<open>KeyError\<close>.
\<close>

datatype conv_value =
    VStr string
  | VTime timestamp
  | VStatus ConversationStatus
  | VMessages "ConvMessage list"
  | VDict jdict

datatype dict_key = StrKey string | TupleKey string conv_value

datatype raised =
    KeyError dict_key
  | TypeError
  | Conversation_not_found string
  | Conversation_not_active ConversationStatus
  | Message_limit_reached
  | Sender_not_part_of_conversation

definition conversation_getitem :: "Conversation \<Rightarrow> dict_key \<Rightarrow> raised + conv_value" where
  "conversation_getitem c key = (case key of
       TupleKey a b \<Rightarrow> Inl (KeyError key)
     | StrKey k \<Rightarrow>
         if k = ''id'' then Inr (VStr (conv_id c))
         else if k = ''terminal1_id'' then Inr (VStr (terminal1_id c))
         else if k = ''terminal2_id'' then Inr (VStr (terminal2_id c))
         else if k = ''start_time'' then Inr (VTime (start_time c))
         else if k = ''last_activity'' then Inr (VTime (last_activity c))
         else if k = ''status'' then Inr (VStatus (status c))
         else if k = ''messages'' then Inr (VMessages (messages c))
         else if k = ''metadata'' then Inr (VDict (conv_metadata c))
         else Inl (KeyError key))"

text \<open>
  \<open>x in v\<close> for a string \<open>x\<close>: substring on a \<open>str\<close>, key membership on a
  \<open>dict\<close>, element membership on a list (a string is never equal to a message), and
  \<open>TypeError\<close> on a value that is not a container.
\<close>

fun starts_with :: "string \<Rightarrow> string \<Rightarrow> bool" where
  "starts_with [] ys = True"
| "starts_with (x # xs) [] = False"
| "starts_with (x # xs) (y # ys) = (x = y \<and> starts_with xs ys)"

fun is_substring :: "string \<Rightarrow> string \<Rightarrow> bool" where
  "is_substring xs [] = (xs = [])"
| "is_substring xs (y # ys) = (starts_with xs (y # ys) \<or> is_substring xs ys)"

definition py_in :: "string \<Rightarrow> conv_value \<Rightarrow> raised + bool" where
  "py_in x v = (case v of
       VStr s \<Rightarrow> Inr (is_substring x s)
     | VDict d \<Rightarrow> Inr (x \<in> fst ` set d)
     | VMessages ms \<Rightarrow> Inr False
     | VTime t \<Rightarrow> Inl TypeError
     | VStatus s \<Rightarrow> Inl TypeError)"

record ManagerConfig =
  max_conversations :: int
  message_limit :: int
  idle_timeout :: int
  backup_interval :: int

record ConversationManager =
  config :: ManagerConfig
  active_conversations :: "string \<rightharpoonup> Conversation"
  conversation_pairs :: "string \<rightharpoonup> string \<times> string"
  terminal_conversations :: "string \<rightharpoonup> string set"

definition default_config :: ManagerConfig where
  "default_config = \<lparr>max_conversations = 1000, message_limit = 1000, idle_timeout = 30,
                      backup_interval = 15\<rparr>"

text \<open>
  The body of \<open>add_message\<close> inside its \<open>try\<close>. Every \<open>raise\<close> comes before the
  first mutation, so an error leaves the manager as it was; \<open>_backup_conversation\<close>
  catches its own exceptions and changes nothing. The membership test evaluates
  \<open>conversation['terminal2_id']\<close> first, then subscripts the conversation with the
  tuple. Every clock read of one call is taken at the same instant \<open>now\<close>.
\<close>

definition add_message_body :: "timestamp \<Rightarrow> string \<Rightarrow> string \<Rightarrow> string \<Rightarrow> jdict option \<Rightarrow> ConversationManager \<Rightarrow> raised + message_id \<times> ConversationManager" where
  "add_message_body now conversation_id content sender_id md m =
     (case active_conversations m conversation_id of
        None \<Rightarrow> Inl (Conversation_not_found conversation_id)
      | Some conversation \<Rightarrow>
          if status conversation \<noteq> Conv_ACTIVE
          then Inl (Conversation_not_active (status conversation))
          else if int (length (messages conversation)) \<ge> message_limit (config m)
          then Inl Message_limit_reached
          else (case conversation_getitem conversation (StrKey ''terminal2_id'') of
                  Inl e \<Rightarrow> Inl e
                | Inr t2 \<Rightarrow>
                    (case conversation_getitem conversation
                            (TupleKey ''terminal1_id'' t2) of
                       Inl e \<Rightarrow> Inl e
                     | Inr v \<Rightarrow>
                         (case py_in sender_id v of
                            Inl e \<Rightarrow> Inl e
                          | Inr member \<Rightarrow>
                              if \<not> member then Inl Sender_not_part_of_conversation
                              else
                                (let message = \<lparr>cm_id = Msg_id (length (messages conversation)) now,
                                                cm_conversation_id = conversation_id,
                                                cm_content = content,
                                                cm_sender_id = sender_id,
                                                cm_timestamp = now,
                                                cm_metadata = (case md of None \<Rightarrow> [] | Some d \<Rightarrow> d),
                                                cm_processed = False\<rparr>;
                                     conversation' = conversation\<lparr>
                                        messages := messages conversation @ [message],
                                        last_activity := now\<rparr>
                                 in Inr (cm_id message,
                                      m\<lparr>active_conversations :=
                                          (active_conversations m)(conversation_id \<mapsto> conversation')\<rparr>))))))"

text \<open>
  \<open>add_message\<close>: whatever the body raises is logged and raised again as a
  \<open>ConversationError\<close> whose text is \<open>Failed to add message:\<close> followed by the
  exception's own text.
\<close>

datatype ConversationError = Failed_to_add_message raised

definition add_message :: "timestamp \<Rightarrow> string \<Rightarrow> string \<Rightarrow> string \<Rightarrow> jdict option \<Rightarrow> ConversationManager \<Rightarrow> (ConversationError + message_id) \<times> ConversationManager" where
  "add_message now conversation_id content sender_id md m =
     (case add_message_body now conversation_id content sender_id md m of
        Inl e \<Rightarrow> (Inl (Failed_to_add_message e), m)
      | Inr (message_id, m') \<Rightarrow> (Inr message_id, m'))"

text \<open>
  The conversation \<open>create_conversation\<close> builds, and a manager holding one
  conversation between the terminals \<open>A\<close> and \<open>B\<close>.
\<close>

definition new_conversation :: "timestamp \<Rightarrow> string \<Rightarrow> string \<Rightarrow> string \<Rightarrow> jdict option \<Rightarrow> Conversation" where
  "new_conversation now conversation_id t1 t2 md =
     \<lparr>conv_id = conversation_id, terminal1_id = t1, terminal2_id = t2, start_time = now,
      last_activity = now, status = Conv_ACTIVE, messages = [],
      conv_metadata = (case md of None \<Rightarrow> [] | Some d \<Rightarrow> d)\<rparr>"

definition one_conversation :: ConversationManager where
  "one_conversation =
     \<lparr>config = default_config,
      active_conversations = [''c1'' \<mapsto> new_conversation 0 ''c1'' ''A'' ''B'' None],
      conversation_pairs = [''c1'' \<mapsto> (''A'', ''B'')],
      terminal_conversations = [''A'' \<mapsto> {''c1''}, ''B'' \<mapsto> {''c1''}]\<rparr>"

section \<open>ai/terminal.py: AITerminal\<close>

datatype TerminalStatus = T_IDLE | T_ACTIVE | T_ERROR | T_MAINTENANCE

text \<open>The dataclass \<open>Message\<close> of the terminals.\<close>

record TerminalMessage =
  tm_content :: string
  tm_timestamp :: timestamp
  tm_sender_id :: string
  tm_conversation_id :: string
  tm_message_id :: string
  tm_metadata :: jdict

record AITerminal =
  terminal_id :: string
  model_type :: string
  conversation_history :: "TerminalMessage list"
  t_active_conversations :: "string set"
  t_status :: TerminalStatus
  current_conversation_id :: "string option"

definition MAX_HISTORY_SIZE :: nat where "MAX_HISTORY_SIZE = 1000"

definition add_to_history :: "TerminalMessage \<Rightarrow> AITerminal \<Rightarrow> AITerminal" where
  "add_to_history message t =
     (let h = conversation_history t @ [message]
      in t\<lparr>conversation_history :=
             (if length h > MAX_HISTORY_SIZE then last_n MAX_HISTORY_SIZE h else h)\<rparr>)"

text \<open>
  Terminals are objects that refer to each other: a message is delivered by calling the
  recipient object, and a reply goes to the object the class-level registry holds for the
  sender's id. The world is the store of terminal objects by address, the registry, and
  the three things the code takes from its environment: \<open>hash\<close> of a string,
  \<open>strftime\<close> of the clock, and the stream of \<open>uuid4\<close> strings.
\<close>

record world =
  objects :: "nat \<Rightarrow> AITerminal"
  registry :: "string \<rightharpoonup> nat"
  hash_of :: "string \<Rightarrow> int"
  strftime :: "timestamp \<Rightarrow> string"
  uuid4 :: "nat \<Rightarrow> string"
  uuids_taken :: nat

definition update_terminal :: "nat \<Rightarrow> (AITerminal \<Rightarrow> AITerminal) \<Rightarrow> world \<Rightarrow> world" where
  "update_terminal a f w = w\<lparr>objects := (objects w)(a := f (objects w a))\<rparr>"

text \<open>\<open>"\n".join(...)\<close> and the prompt and response f-strings.\<close>

fun join_lines :: "string list \<Rightarrow> string" where
  "join_lines [] = []"
| "join_lines [x] = x"
| "join_lines (x # y # ys) = x @ [CHR 0x0A] @ join_lines (y # ys)"

definition format_gpt_prompt :: "string \<Rightarrow> TerminalMessage list \<Rightarrow> string" where
  "format_gpt_prompt content history =
     ''Context:'' @ [CHR 0x0A]
       @ join_lines (map (\<lambda>msg. tm_sender_id msg @ '': '' @ tm_content msg) history)
       @ [CHR 0x0A, CHR 0x0A] @ ''Current message: '' @ content
       @ [CHR 0x0A, CHR 0x0A] @ ''Response:''"

definition void_responses :: "string list" where
  "void_responses =
     [''Echoing through the void...'', ''Signal received in the darkness...'',
      ''Processing quantum fluctuations...'', ''Calculating void resonance...'']"

definition generate_void_response :: "timestamp \<Rightarrow> world \<Rightarrow> string \<Rightarrow> string" where
  "generate_void_response now w prompt =
     ''['' @ strftime w now @ ''] ''
       @ void_responses ! nat (hash_of w prompt mod 4) @ '' '' @ prompt"

text \<open>
  \<open>generate_response\<close>: the context holds the last five messages of the history; a
  \<open>gpt\<close> terminal formats a prompt from them, any other model answers the content
  itself. Nothing on this path raises or suspends, so the retry loop returns on its first
  pass and the \<open>wait_for\<close> deadline cannot pass.
\<close>

definition generate_response :: "timestamp \<Rightarrow> world \<Rightarrow> AITerminal \<Rightarrow> TerminalMessage \<Rightarrow> string" where
  "generate_response now w t message =
     (if model_type t = ''gpt''
      then generate_void_response now w
             (format_gpt_prompt (tm_content message) (last_n 5 (conversation_history t)))
      else generate_void_response now w (tm_content message))"

text \<open>
  \<open>send_message\<close> delivers by awaiting the recipient's \<open>receive_message\<close>, which
  replies by awaiting \<open>send_message\<close> again: the calls nest, and Python ends the
  nesting with \<open>RecursionError\<close> when the interpreter's stack is used up. The first
  argument is the depth still available. \<open>receive_message\<close> catches every exception
  of its reply, sets the status to \<open>ERROR\<close> and returns; \<open>send_message\<close> and
  \<open>_deliver_message\<close> let exceptions through.
\<close>

datatype terminal_error = RuntimeError | RecursionError

fun terminal_send_message :: "nat \<Rightarrow> timestamp \<Rightarrow> nat \<Rightarrow> string \<Rightarrow> nat \<Rightarrow> world \<Rightarrow> terminal_error option \<times> world"
and receive_message :: "nat \<Rightarrow> timestamp \<Rightarrow> nat \<Rightarrow> TerminalMessage \<Rightarrow> world \<Rightarrow> terminal_error option \<times> world" where
  "terminal_send_message 0 now self content recipient w = (Some RecursionError, w)"
| "terminal_send_message (Suc depth) now self content recipient w =
     (case current_conversation_id (objects w self) of
        None \<Rightarrow> (Some RuntimeError, w)
      | Some conversation \<Rightarrow>
          if conversation = [] then (Some RuntimeError, w)
          else
            (let t = objects w self;
                 message = \<lparr>tm_content = content, tm_timestamp = now,
                             tm_sender_id = terminal_id t, tm_conversation_id = conversation,
                             tm_message_id = uuid4 w (uuids_taken w),
                             tm_metadata =
                               [(''model_type'', JStr (model_type t)),
                                (''sequence_number'', JInt (int (length (conversation_history t))))]\<rparr>;
                 w1 = update_terminal self (add_to_history message)
                        (w\<lparr>uuids_taken := Suc (uuids_taken w)\<rparr>)
             in receive_message depth now recipient message w1))"
| "receive_message 0 now self message w = (Some RecursionError, w)"
| "receive_message (Suc depth) now self message w =
     (let w1 = update_terminal self (add_to_history message) w
      in if tm_conversation_id message \<in> t_active_conversations (objects w1 self)
         then (let response = generate_response now w1 (objects w1 self) message
               in case registry w1 (tm_sender_id message) of
                    None \<Rightarrow> (None, w1)
                  | Some sender \<Rightarrow>
                      (case terminal_send_message depth now self response sender w1 of
                         (None, w2) \<Rightarrow> (None, w2)
                       | (Some e, w2) \<Rightarrow>
                           (None, update_terminal self (\<lambda>t. t\<lparr>t_status := T_ERROR\<rparr>) w2)))
         else (None, w1))"

text \<open>
  A sequence of calls made from outside: terminal \<open>self\<close> sends a text to a recipient,
  or receives a message. Each call starts with the whole stack available.
\<close>

datatype terminal_op =
    Send timestamp nat string nat
  | Receive timestamp nat TerminalMessage

fun apply_terminal_op :: "nat \<Rightarrow> terminal_op \<Rightarrow> world \<Rightarrow> world" where
  "apply_terminal_op depth (Send now self content recipient) w =
     snd (terminal_send_message depth now self content recipient w)"
| "apply_terminal_op depth (Receive now self message) w =
     snd (receive_message depth now self message w)"

definition run_terminal_ops :: "nat \<Rightarrow> terminal_op list \<Rightarrow> world \<Rightarrow> world" where
  "run_terminal_ops depth ops w = fold (apply_terminal_op depth) ops w"

definition history_bounded :: "world \<Rightarrow> bool" where
  "history_bounded w = (\<forall>a. length (conversation_history (objects w a)) \<le> MAX_HISTORY_SIZE)"

text \<open>
  A terminal as \<open>__init__\<close> leaves it, and a world of two registered terminals of which
  the first has started a conversation.
\<close>

definition new_terminal :: "string \<Rightarrow> string \<Rightarrow> AITerminal" where
  "new_terminal tid mt =
     \<lparr>terminal_id = tid, model_type = mt, conversation_history = [],
      t_active_conversations = {}, t_status = T_IDLE, current_conversation_id = None\<rparr>"

definition two_terminals :: world where
  "two_terminals =
     \<lparr>objects = (\<lambda>a. if a = 0
                      then (new_terminal ''A'' ''gpt'')\<lparr>t_active_conversations := {''c''},
                              t_status := T_ACTIVE, current_conversation_id := Some ''c''\<rparr>
                      else new_terminal ''B'' ''gpt''),
      registry = [''A'' \<mapsto> 0, ''B'' \<mapsto> 1],
      hash_of = (\<lambda>s. int (length s)),
      strftime = (\<lambda>t. ''2024-01-01 00:00:00''),
      uuid4 = (\<lambda>n. replicate (Suc n) CHR ''u''),
      uuids_taken = 0\<rparr>"

section \<open>services/conversation_service.py: the rate limit of ConversationService\<close>

definition RATE_LIMIT_WINDOW :: int where "RATE_LIMIT_WINDOW = 60"
definition MAX_MESSAGES_PER_WINDOW :: nat where "MAX_MESSAGES_PER_WINDOW = 100"

text \<open>
  Of the service's state, \<open>add_message\<close> reads and writes \<open>rate_limits\<close> only; the
  conversations and messages themselves live in the database.
\<close>

record ConversationService =
  rate_limits :: "string \<rightharpoonup> timestamp list"

definition new_service :: ConversationService where
  "new_service = \<lparr>rate_limits = Map.empty\<rparr>"

text \<open>
  The exceptions of the collaborators (the database session, the ORM classes, the
  tokenizer): a \<open>SQLAlchemyError\<close> or any other exception.
\<close>

datatype collaborator_error = SQLAlchemyError | Another_exception

text \<open>
  What \<open>add_message\<close> raises: its own errors, or a collaborator's exception that
  escapes as it is.
\<close>

datatype service_error =
    ConversationRateLimitError
  | Conversation_not_found_in_db
  | Conversation_is ConversationStatus
  | Failed_to_add_message_in_db
  | Escaped collaborator_error

text \<open>
  \<open>_check_rate_limit\<close> stores the purged list before it compares, so the purge stays
  when the call raises.
\<close>

definition check_rate_limit :: "timestamp \<Rightarrow> string \<Rightarrow> ConversationService \<Rightarrow> service_error option \<times> ConversationService" where
  "check_rate_limit now terminal sv =
     (let stamps = (case rate_limits sv terminal of None \<Rightarrow> [] | Some l \<Rightarrow> l);
          window_start = now - seconds RATE_LIMIT_WINDOW;
          kept = filter (\<lambda>ts. ts > window_start) stamps;
          sv' = sv\<lparr>rate_limits := (rate_limits sv)(terminal \<mapsto> kept)\<rparr>
      in if length kept \<ge> MAX_MESSAGES_PER_WINDOW
         then (Some ConversationRateLimitError, sv')
         else (None, sv'))"

text \<open>\<open>_update_rate_limit\<close> subscripts the dict: a terminal without a list raises.\<close>

definition update_rate_limit :: "timestamp \<Rightarrow> string \<Rightarrow> ConversationService \<Rightarrow> service_error + ConversationService" where
  "update_rate_limit now terminal sv =
     (case rate_limits sv terminal of
        None \<Rightarrow> Inl (Escaped Another_exception)
      | Some l \<Rightarrow> Inr (sv\<lparr>rate_limits := (rate_limits sv)(terminal \<mapsto> l @ [now])\<rparr>))"

text \<open>
  What one call of \<open>add_message\<close> takes from outside the service: the clock at the
  rate check and at the recording, the \<open>uuid4\<close> drawn for the message, the row the
  conversation query returns (or the fact that the query raises), whether the rest of
  the body (building and validating the message, counting tokens, flushing, updating the
  terminal row, committing) completes, raises before the timestamp is recorded, or raises
  after it, and whether the \<open>rollback\<close> of the two \<open>except\<close> clauses raises.
\<close>

datatype body_outcome =
    Completes
  | Raises_before_recording collaborator_error
  | Raises_after_recording collaborator_error

record add_call =
  now_check :: timestamp
  now_record :: timestamp
  new_uuid :: string
  query :: "collaborator_error + ConversationStatus option"
  body :: body_outcome
  rollback :: "collaborator_error option"

text \<open>
  The two \<open>except\<close> clauses: a \<open>SQLAlchemyError\<close> is raised again as
  \<open>ConversationServiceError("Failed to add message")\<close>, any other exception as it
  is, both after the rollback; an exception of the rollback escapes instead.
\<close>

definition from_collaborator :: "collaborator_error \<Rightarrow> service_error" where
  "from_collaborator e = (case e of SQLAlchemyError \<Rightarrow> Failed_to_add_message_in_db
                                  | Another_exception \<Rightarrow> Escaped Another_exception)"

definition reraise :: "add_call \<Rightarrow> service_error \<Rightarrow> service_error" where
  "reraise call e = (case rollback call of None \<Rightarrow> e | Some x \<Rightarrow> Escaped x)"

definition service_add_message :: "add_call \<Rightarrow> string \<Rightarrow> string \<Rightarrow> string \<Rightarrow> ConversationService \<Rightarrow> (service_error + string) \<times> ConversationService" where
  "service_add_message call conversation_id content sender_id sv =
     (case check_rate_limit (now_check call) sender_id sv of
        (Some e, sv1) \<Rightarrow> (Inl (reraise call e), sv1)
      | (None, sv1) \<Rightarrow>
          (case query call of
             Inl e \<Rightarrow> (Inl (reraise call (from_collaborator e)), sv1)
           | Inr None \<Rightarrow> (Inl (reraise call Conversation_not_found_in_db), sv1)
           | Inr (Some st) \<Rightarrow>
               if st \<noteq> Conv_ACTIVE then (Inl (reraise call (Conversation_is st)), sv1)
               else (case body call of
                       Raises_before_recording e \<Rightarrow> (Inl (reraise call (from_collaborator e)), sv1)
                     | outcome \<Rightarrow>
                         (case update_rate_limit (now_record call) sender_id sv1 of
                            Inl e \<Rightarrow> (Inl (reraise call e), sv1)
                          | Inr sv2 \<Rightarrow>
                              (case outcome of
                                 Raises_after_recording e \<Rightarrow>
                                   (Inl (reraise call (from_collaborator e)), sv2)
                               | _ \<Rightarrow> (Inr (new_uuid call), sv2))))))"

text \<open>One sender's calls, one after the other, with the result of each.\<close>

fun add_messages :: "add_call list \<Rightarrow> string \<Rightarrow> string \<Rightarrow> string \<Rightarrow> ConversationService \<Rightarrow> (service_error + string) list \<times> ConversationService" where
  "add_messages [] conversation_id content sender_id sv = ([], sv)"
| "add_messages (call # calls) conversation_id content sender_id sv =
     (case service_add_message call conversation_id content sender_id sv of
        (r, sv1) \<Rightarrow>
          (case add_messages calls conversation_id content sender_id sv1 of
             (rs, sv2) \<Rightarrow> (r # rs, sv2)))"

definition recorded :: "ConversationService \<Rightarrow> string \<Rightarrow> timestamp list" where
  "recorded sv terminal = (case rate_limits sv terminal of None \<Rightarrow> [] | Some l \<Rightarrow> l)"

definition good_call :: "add_call \<Rightarrow> bool" where
  "good_call call = (query call = Inr (Some Conv_ACTIVE) \<and> body call = Completes)"

text \<open>A call at second \<open>n\<close> of the clock that finds its conversation active and completes.\<close>

definition call_at :: "int \<Rightarrow> add_call" where
  "call_at n = \<lparr>now_check = seconds n, now_record = seconds n, new_uuid = ''id'',
               query = Inr (Some Conv_ACTIVE), body = Completes, rollback = None\<rparr>"

section \<open>services/messaging_service.py: MessagingService\<close>

datatype MessagePriority = HIGH | NORMAL | LOW

definition priority_value :: "MessagePriority \<Rightarrow> int" where
  "priority_value p = (case p of HIGH \<Rightarrow> 0 | NORMAL \<Rightarrow> 1 | LOW \<Rightarrow> 2)"

text \<open>\<open>MessagePriority(n)\<close>: the member with that value, \<open>ValueError\<close> without one.\<close>

definition priority_of_value :: "int \<Rightarrow> MessagePriority option" where
  "priority_of_value n =
     (if n = 0 then Some HIGH else if n = 1 then Some NORMAL else if n = 2 then Some LOW
      else None)"

datatype MessageState = PENDING | DELIVERED | FAILED | EXPIRED

definition QUEUE_SIZE :: int where "QUEUE_SIZE = 1000"
definition MESSAGE_TIMEOUT :: int where "MESSAGE_TIMEOUT = 30"
definition MESSAGE_MAX_RETRY_ATTEMPTS :: nat where "MESSAGE_MAX_RETRY_ATTEMPTS = 3"
definition BATCH_SIZE :: nat where "BATCH_SIZE = 50"

text \<open>
  The service builds a \<open>Message\<close> from keyword arguments and only reads them back: the
  message is the record of those arguments. A message id is \<open>str(uuid.uuid4())\<close>; the
  values drawn are pairwise distinct, and the one drawn \<open>n\<close>-th is written \<open>n\<close>.
\<close>

record QueuedMessage =
  qm_id :: nat
  qm_content :: string
  qm_sender_id :: string
  qm_recipient_id :: string
  qm_timestamp :: timestamp
  qm_priority :: int
  qm_metadata :: jdict

text \<open>
  An \<open>asyncio.Queue\<close>: first in, first out, bounded when \<open>maxsize\<close> is positive and
  unbounded otherwise.
\<close>

record Queue =
  maxsize :: int
  items :: "QueuedMessage list"

definition queue_full :: "Queue \<Rightarrow> bool" where
  "queue_full q = (maxsize q > 0 \<and> int (length (items q)) \<ge> maxsize q)"

text \<open>An entry of \<open>message_states\<close>: the dict with the four keys.\<close>

record MessageStatus =
  ms_state :: MessageState
  attempts :: nat
  created_at :: timestamp
  timeout :: int

text \<open>
  Metrics and logging are write-only and are left out. \<open>processing_tasks\<close> holds the
  terminals whose worker task exists.
\<close>

record MessagingService =
  terminals :: "string \<rightharpoonup> AITerminal"
  message_queues :: "string \<rightharpoonup> Queue"
  processing_tasks :: "string set"
  message_states :: "nat \<rightharpoonup> MessageStatus"
  active :: "string set"
  uuid_count :: nat

definition new_messaging_service :: MessagingService where
  "new_messaging_service =
     \<lparr>terminals = Map.empty, message_queues = Map.empty, processing_tasks = {},
      message_states = Map.empty, active = {}, uuid_count = 0\<rparr>"

text \<open>
  What a \<open>MessagingError\<close> wraps. The class calls six methods it does not define:
  \<open>_handle_undelivered_message\<close>, \<open>_handle_queue_full\<close>, \<open>_handle_queue_timeout\<close>,
  \<open>_handle_expired_message\<close>, \<open>_process_high_priority_message\<close> and
  \<open>_process_normal_message\<close>. The attribute lookup of such a call raises
  \<open>AttributeError\<close>.
\<close>

datatype cause =
    Terminal_already_registered
  | Recipient_terminal_not_connected
  | Terminal_not_registered
  | KeyError_queue string
  | ValueError_priority int
  | AttributeError string

datatype MessagingError = MessagingError cause

definition register_terminal :: "AITerminal \<Rightarrow> int option \<Rightarrow> MessagingService \<Rightarrow> MessagingError option \<times> MessagingService" where
  "register_terminal terminal queue_size sv =
     (if terminal_id terminal \<in> dom (terminals sv)
      then (Some (MessagingError Terminal_already_registered), sv)
      else (None,
            sv\<lparr>terminals := (terminals sv)(terminal_id terminal \<mapsto> terminal),
               message_queues := (message_queues sv)(terminal_id terminal \<mapsto>
                   \<lparr>maxsize = (case queue_size of
                                 None \<Rightarrow> QUEUE_SIZE
                               | Some n \<Rightarrow> if n = 0 then QUEUE_SIZE else n),
                    items = []\<rparr>),
               active := insert (terminal_id terminal) (active sv),
               processing_tasks := insert (terminal_id terminal) (processing_tasks sv)\<rparr>))"

text \<open>
  \<open>unregister_terminal\<close>: with \<open>cleanup\<close> and a non-empty queue, the first message is
  taken from the queue and handed to \<open>_handle_undelivered_message\<close>, which the class
  does not define; the error leaves the terminal registered, without task and not active.
  The two \<open>del\<close> statements run in order, the first before the second can raise.
\<close>

definition unregister_terminal :: "string \<Rightarrow> bool \<Rightarrow> MessagingService \<Rightarrow> MessagingError option \<times> MessagingService" where
  "unregister_terminal tid cleanup sv =
     (if tid \<notin> dom (terminals sv) then (None, sv)
      else
        (let sv1 = sv\<lparr>processing_tasks := processing_tasks sv - {tid},
                       active := active sv - {tid}\<rparr>
         in case message_queues sv1 tid of
              None \<Rightarrow>
                if cleanup then (Some (MessagingError (KeyError_queue tid)), sv1)
                else (Some (MessagingError (KeyError_queue tid)),
                      sv1\<lparr>terminals := (terminals sv1)(tid := None)\<rparr>)
            | Some q \<Rightarrow>
                (case (if cleanup then items q else []) of
                   message # rest \<Rightarrow>
                     (Some (MessagingError (AttributeError ''_handle_undelivered_message'')),
                      sv1\<lparr>message_queues := (message_queues sv1)(tid \<mapsto> q\<lparr>items := rest\<rparr>)\<rparr>)
                 | [] \<Rightarrow>
                     (None, sv1\<lparr>terminals := (terminals sv1)(tid := None),
                                message_queues := (message_queues sv1)(tid := None)\<rparr>))))"

text \<open>
  \<open>send_message\<close>. \<open>timeout or self.MESSAGE_TIMEOUT\<close> takes the default for
  \<open>None\<close> and for 0. The model runs one operation at a time: a \<open>put\<close> on a full
  queue is the case in which the worker is busy or asleep and takes nothing from the queue
  during the wait, so \<open>wait_for\<close> ends in \<open>TimeoutError\<close> after its second
  (\<open>put\<close> itself never raises \<open>QueueFull\<close>), and the handler of that branch is
  \<open>_handle_queue_timeout\<close>. Every exception of the body is raised again as
  \<open>MessagingError\<close>; the entry of \<open>message_states\<close> is written before.
\<close>

definition messaging_send_message :: "timestamp \<Rightarrow> string \<Rightarrow> string \<Rightarrow> string \<Rightarrow> MessagePriority \<Rightarrow> jdict option \<Rightarrow> int option \<Rightarrow> MessagingService \<Rightarrow> (MessagingError + nat) \<times> MessagingService" where
  "messaging_send_message now sender_id recipient_id content priority md tmo sv =
     (if recipient_id \<notin> active sv
      then (Inl (MessagingError Recipient_terminal_not_connected), sv)
      else
        (let message_id = uuid_count sv;
             message = \<lparr>qm_id = message_id, qm_content = content, qm_sender_id = sender_id,
                         qm_recipient_id = recipient_id, qm_timestamp = now,
                         qm_priority = priority_value priority,
                         qm_metadata = (case md of None \<Rightarrow> [] | Some d \<Rightarrow> d)\<rparr>;
             sv1 = sv\<lparr>uuid_count := Suc (uuid_count sv),
                       message_states := (message_states sv)(message_id \<mapsto>
                          \<lparr>ms_state = PENDING, attempts = 0, created_at = now,
                           timeout = (case tmo of
                                        None \<Rightarrow> MESSAGE_TIMEOUT
                                      | Some n \<Rightarrow> if n = 0 then MESSAGE_TIMEOUT else n)\<rparr>)\<rparr>
         in case message_queues sv1 recipient_id of
              None \<Rightarrow> (Inl (MessagingError (KeyError_queue recipient_id)), sv1)
            | Some q \<Rightarrow>
                if queue_full q
                then (Inl (MessagingError (AttributeError ''_handle_queue_timeout'')), sv1)
                else (Inr message_id,
                      sv1\<lparr>message_queues := (message_queues sv1)(recipient_id \<mapsto>
                             q\<lparr>items := items q @ [message]\<rparr>)\<rparr>)))"

text \<open>
  One round of \<open>get_messages\<close> that obtains a message: the head of the queue, marked
  \<open>DELIVERED\<close> when its state is tracked. This is the recipient consuming.
\<close>

definition get_message :: "string \<Rightarrow> MessagingService \<Rightarrow> (MessagingError + QueuedMessage option) \<times> MessagingService" where
  "get_message tid sv =
     (case message_queues sv tid of
        None \<Rightarrow> (Inl (MessagingError Terminal_not_registered), sv)
      | Some q \<Rightarrow>
          if tid \<notin> active sv then (Inr None, sv)
          else (case items q of
                  [] \<Rightarrow> (Inr None, sv)
                | message # rest \<Rightarrow>
                    (Inr (Some message),
                     sv\<lparr>message_queues := (message_queues sv)(tid \<mapsto> q\<lparr>items := rest\<rparr>),
                        message_states := (case message_states sv (qm_id message) of
                            None \<Rightarrow> message_states sv
                          | Some st \<Rightarrow> (message_states sv)(qm_id message \<mapsto>
                                         st\<lparr>ms_state := DELIVERED\<rparr>))\<rparr>)))"

definition is_message_expired :: "timestamp \<Rightarrow> MessageStatus \<Rightarrow> bool" where
  "is_message_expired now st = (now - created_at st > seconds (timeout st))"

text \<open>
  \<open>_handle_failed_message\<close>: the attempt is counted on the entry of the failed message;
  below the maximum the handler sleeps \<open>2 ** attempts\<close> seconds and calls
  \<open>send_message\<close> with the message's sender, recipient, content, priority and metadata,
  and no timeout. The result carries the clock after the sleep.
\<close>

definition handle_failed_message :: "timestamp \<Rightarrow> QueuedMessage \<Rightarrow> MessagingService \<Rightarrow> MessagingError option \<times> timestamp \<times> MessagingService" where
  "handle_failed_message now message sv =
     (case message_states sv (qm_id message) of
        None \<Rightarrow> (None, now, sv)
      | Some st \<Rightarrow>
          (let st' = st\<lparr>attempts := attempts st + 1\<rparr>;
               sv1 = sv\<lparr>message_states := (message_states sv)(qm_id message \<mapsto> st')\<rparr>
           in if attempts st' \<ge> MESSAGE_MAX_RETRY_ATTEMPTS
              then (None, now,
                    sv1\<lparr>message_states := (message_states sv1)(qm_id message \<mapsto>
                           st'\<lparr>ms_state := FAILED\<rparr>)\<rparr>)
              else
                (let later = now + seconds (2 ^ attempts st')
                 in case priority_of_value (qm_priority message) of
                      None \<Rightarrow> (Some (MessagingError (ValueError_priority (qm_priority message))),
                               later, sv1)
                    | Some p \<Rightarrow>
                        (case messaging_send_message later (qm_sender_id message)
                                (qm_recipient_id message) (qm_content message) p
                                (Some (qm_metadata message)) None sv1 of
                           (Inl e, sv2) \<Rightarrow> (Some e, later, sv2)
                         | (Inr new_id, sv2) \<Rightarrow> (None, later, sv2)))))"

text \<open>
  What \<open>_process_message_batch\<close> does with one tracked message before its \<open>except\<close>:
  each of the three calls is to a method the class does not define.
\<close>

definition process_one :: "timestamp \<Rightarrow> QueuedMessage \<Rightarrow> MessageStatus \<Rightarrow> cause + unit" where
  "process_one now message st =
     (if is_message_expired now st then Inl (AttributeError ''_handle_expired_message'')
      else if qm_priority message = priority_value HIGH
      then Inl (AttributeError ''_process_high_priority_message'')
      else Inl (AttributeError ''_process_normal_message''))"

text \<open>
  \<open>_process_message_batch\<close>: an untracked message is skipped; an exception of the
  processing is handled by \<open>_handle_failed_message\<close>; an exception of that handler
  leaves the loop, and the rest of the batch, already taken from the queue, is dropped.
\<close>

fun process_message_batch :: "timestamp \<Rightarrow> QueuedMessage list \<Rightarrow> MessagingService \<Rightarrow> MessagingError option \<times> timestamp \<times> MessagingService" where
  "process_message_batch now [] sv = (None, now, sv)"
| "process_message_batch now (message # rest) sv =
     (case message_states sv (qm_id message) of
        None \<Rightarrow> process_message_batch now rest sv
      | Some st \<Rightarrow>
          (case process_one now message st of
             Inr u \<Rightarrow> process_message_batch now rest sv
           | Inl e \<Rightarrow>
               (case handle_failed_message now message sv of
                  (Some err, later, sv1) \<Rightarrow> (Some err, later, sv1)
                | (None, later, sv1) \<Rightarrow> process_message_batch later rest sv1)))"

text \<open>The batch the worker collects: up to \<open>BATCH_SIZE\<close> messages from the head.\<close>

definition collect_batch :: "Queue \<Rightarrow> QueuedMessage list \<times> Queue" where
  "collect_batch q = (take BATCH_SIZE (items q), q\<lparr>items := drop BATCH_SIZE (items q)\<rparr>)"

text \<open>
  One round of the loop of \<open>_process_messages\<close>; the loop logs every exception and
  goes on.
\<close>

definition worker_round :: "timestamp \<Rightarrow> string \<Rightarrow> MessagingService \<Rightarrow> MessagingService" where
  "worker_round now tid sv =
     (if tid \<notin> active sv then sv
      else (case message_queues sv tid of
              None \<Rightarrow> sv
            | Some q \<Rightarrow>
                (case collect_batch q of
                   (batch, q') \<Rightarrow>
                     (let sv1 = sv\<lparr>message_queues := (message_queues sv)(tid \<mapsto> q')\<rparr>
                      in if batch = [] then sv1
                         else snd (snd (process_message_batch now batch sv1))))))"

text \<open>One sweep of \<open>_cleanup_expired_messages\<close>.\<close>

definition cleanup_expired :: "timestamp \<Rightarrow> MessagingService \<Rightarrow> MessagingService" where
  "cleanup_expired now sv =
     sv\<lparr>message_states := (\<lambda>message_id.
          case message_states sv message_id of
            None \<Rightarrow> None
          | Some st \<Rightarrow> if is_message_expired now st then Some (st\<lparr>ms_state := EXPIRED\<rparr>)
                       else Some st)\<rparr>"



text \<open>The operations on the service, and a run of a sequence of them.\<close>

datatype service_op =
    Op_register AITerminal "int option"
  | Op_unregister string bool
  | Op_send timestamp string string string MessagePriority "jdict option" "int option"
  | Op_worker timestamp string
  | Op_get string
  | Op_sweep timestamp

fun apply_service_op :: "service_op \<Rightarrow> MessagingService \<Rightarrow> MessagingService" where
  "apply_service_op (Op_register terminal queue_size) sv = snd (register_terminal terminal queue_size sv)"
| "apply_service_op (Op_unregister tid cleanup) sv = snd (unregister_terminal tid cleanup sv)"
| "apply_service_op (Op_send now sender_id recipient_id content priority md tmo) sv =
     snd (messaging_send_message now sender_id recipient_id content priority md tmo sv)"
| "apply_service_op (Op_worker now tid) sv = worker_round now tid sv"
| "apply_service_op (Op_get tid) sv = snd (get_message tid sv)"
| "apply_service_op (Op_sweep now) sv = cleanup_expired now sv"

definition run_service_ops :: "service_op list \<Rightarrow> MessagingService \<Rightarrow> MessagingService" where
  "run_service_ops ops sv = fold apply_service_op ops sv"












definition held_undelivered :: "nat \<Rightarrow> string \<Rightarrow> timestamp \<Rightarrow> MessagingService \<Rightarrow> bool" where
  "held_undelivered x r c sv =
     (x < uuid_count sv \<and>
      (\<exists>st. message_states sv x = Some st \<and> created_at st = c \<and>
            timeout st = MESSAGE_TIMEOUT \<and> ms_state st \<noteq> DELIVERED) \<and>
      (\<forall>t q m. message_queues sv t = Some q \<longrightarrow> m \<in> set (items q) \<longrightarrow> qm_id m = x \<longrightarrow> t = r))"

text \<open>
  The invariant behind the retries: no tracked message has more than one attempt or is
  \<open>FAILED\<close>; and every queued id is queued once, in one queue, was drawn, and has no
  attempt counted yet.
\<close>

definition never_failed :: "MessagingService \<Rightarrow> bool" where
  "never_failed sv =
     (\<forall>i st. message_states sv i = Some st \<longrightarrow> attempts st \<le> 1 \<and> ms_state st \<noteq> FAILED)"

definition untried :: "MessagingService \<Rightarrow> nat \<Rightarrow> bool" where
  "untried sv i =
     (i < uuid_count sv \<and> (\<forall>st. message_states sv i = Some st \<longrightarrow> attempts st = 0))"

definition queued_ids :: "MessagingService \<Rightarrow> string \<Rightarrow> nat list" where
  "queued_ids sv t = (case message_queues sv t of None \<Rightarrow> [] | Some q \<Rightarrow> map qm_id (items q))"

definition queued_once :: "MessagingService \<Rightarrow> bool" where
  "queued_once sv =
     ((\<forall>t. distinct (queued_ids sv t) \<and> (\<forall>i\<in>set (queued_ids sv t). untried sv i)) \<and>
      (\<forall>t t'. t \<noteq> t' \<longrightarrow> set (queued_ids sv t) \<inter> set (queued_ids sv t') = {}))"

section \<open>Verified properties\<close>

subsection \<open>ConnectionManager: the pending buffer\<close>

lemma length_last_n: "length (last_n n xs) = min n (length xs)"
  by (simp add: last_n_def)

lemma buffers_bounded_active [simp]:
  "buffers_bounded (m\<lparr>active_connections := f\<rparr>) = buffers_bounded m"
  by (simp add: buffers_bounded_def)

lemma buffers_bounded_empty_buffer:
  "buffers_bounded m \<Longrightarrow> buffers_bounded (m\<lparr>message_buffer := (message_buffer m)(t \<mapsto> [])\<rparr>)"
  by (simp add: buffers_bounded_def)

lemma buffer_message_bounded: "buffers_bounded m \<Longrightarrow> buffers_bounded (buffer_message now t msg m)"
  by (auto simp: buffers_bounded_def buffer_message_def Let_def length_last_n split: option.splits)

lemma handle_disconnect_bounded: "buffers_bounded m \<Longrightarrow> buffers_bounded (handle_disconnect now t m)"
  by (simp add: handle_disconnect_def split: option.splits)

lemma disconnect_bounded: "buffers_bounded m \<Longrightarrow> buffers_bounded (disconnect now t code reason m)"
  by (auto simp: buffers_bounded_def disconnect_def Let_def split: option.splits sum.splits prod.splits if_splits)

lemma handle_connection_error_bounded:
  "buffers_bounded m \<Longrightarrow> buffers_bounded (handle_connection_error now t e m)"
  by (simp add: handle_connection_error_def Let_def disconnect_bounded split: option.splits)

lemma send_message_bounded:
  "buffers_bounded m \<Longrightarrow> buffers_bounded (snd (send_message now t msg retry m))"
  by (simp add: send_message_def Let_def buffer_message_bounded handle_disconnect_bounded
      handle_connection_error_bounded split: option.splits sum.splits prod.splits ws_error.splits)

lemma send_each_bounded:
  "buffers_bounded m \<Longrightarrow> buffers_bounded (send_each now t ds m)"
  by (induction ds arbitrary: m) (simp_all add: send_message_bounded)

lemma send_buffered_messages_bounded:
  "buffers_bounded m \<Longrightarrow> buffers_bounded (send_buffered_messages now t m)"
  by (simp add: send_buffered_messages_def send_each_bounded buffers_bounded_empty_buffer split: option.splits)

lemma connect_bounded:
  "buffers_bounded m \<Longrightarrow> buffers_bounded (connect now t ws md m)"
  by (auto simp: connect_def Let_def handle_connection_error_bounded
      split: sum.splits prod.splits intro!: send_buffered_messages_bounded)
     (simp add: buffers_bounded_def)

lemma cleanup_terminal_data_bounded:
  "buffers_bounded m \<Longrightarrow> buffers_bounded (cleanup_terminal_data t m)"
  by (simp add: cleanup_terminal_data_def buffers_bounded_def)

lemma connection_heartbeat_bounded:
  "buffers_bounded m \<Longrightarrow> buffers_bounded (connection_heartbeat now t m)"
  by (simp add: connection_heartbeat_def handle_connection_error_bounded
      split: option.splits sum.splits prod.splits)

lemma heartbeat_monitor_bounded:
  "buffers_bounded m \<Longrightarrow> buffers_bounded (heartbeat_monitor now t m)"
  by (simp add: heartbeat_monitor_def handle_connection_error_bounded split: option.splits)

lemma cleanup_disconnected_bounded:
  "buffers_bounded m \<Longrightarrow> buffers_bounded (cleanup_disconnected now t m)"
  by (simp add: cleanup_disconnected_def cleanup_terminal_data_bounded split: option.splits)

lemma apply_op_bounded: "buffers_bounded m \<Longrightarrow> buffers_bounded (apply_op op m)"
  by (cases op)
     (simp_all add: connect_bounded disconnect_bounded send_message_bounded buffer_message_bounded
        send_buffered_messages_bounded handle_connection_error_bounded handle_disconnect_bounded
        cleanup_terminal_data_bounded connection_heartbeat_bounded heartbeat_monitor_bounded
        cleanup_disconnected_bounded)

lemma fold_apply_op_bounded: "buffers_bounded m \<Longrightarrow> buffers_bounded (fold apply_op ops m)"
  by (induction ops arbitrary: m) (simp_all add: apply_op_bounded)

lemma new_manager_bounded: "buffers_bounded new_manager"
  by (simp add: buffers_bounded_def new_manager_def)

lemma buffer_message_full:
  assumes "message_buffer m t = Some b" and "length b = 1000"
  shows "message_buffer (buffer_message now t msg m) t = Some (tl b @ [prepare_message now msg])"
proof -
  have "b \<noteq> []" using assms(2) by auto
  then obtain x xs where b: "b = x # xs" by (cases b) auto
  with assms(2) have "length xs = 999" by simp
  then show ?thesis
    using assms(1) b by (simp add: buffer_message_def Let_def last_n_def)
qed

text \<open>
  Claim C7. Whatever sequence of operations the manager has run since it was created, no
  pending buffer holds more than 1000 documents; and appending to a buffer that holds
  exactly 1000 drops its oldest document and keeps the new one last. \<open>_buffer_message\<close>
  is a total function of the manager: it neither waits nor raises.
\<close>

theorem pending_buffer_bounded:
  "buffers_bounded (run_ops ops new_manager) \<and>
   (\<forall>b. message_buffer (run_ops ops new_manager) t = Some b \<and> length b = 1000 \<longrightarrow>
      message_buffer (buffer_message now t msg (run_ops ops new_manager)) t
        = Some (tl b @ [prepare_message now msg]))"
  using fold_apply_op_bounded [OF new_manager_bounded, of ops]
  by (auto simp: run_ops_def buffer_message_full)

lemma buffer_message_funpow:
  "n \<le> 1000 \<Longrightarrow>
   message_buffer ((buffer_message now t msg ^^ n) new_manager) t
     = (if n = 0 then None else Some (replicate n (prepare_message now msg)))"
proof (induction n)
  case 0
  show ?case by (simp add: new_manager_def)
next
  case (Suc n)
  then show ?case
    by (simp add: replicate_append_same buffer_message_def Let_def)
qed

lemma buffer_message_replicate:
  "n \<le> 1000 \<Longrightarrow>
   message_buffer (fold apply_op (replicate n (Buffer_message now t msg)) new_manager) t
     = (if n = 0 then None else Some (replicate n (prepare_message now msg)))"
proof -
  have "apply_op (Buffer_message now t msg) = buffer_message now t msg"
    by (rule ext) simp
  then show "n \<le> 1000 \<Longrightarrow> ?thesis"
    using buffer_message_funpow [of n now t msg] by (simp only: fold_replicate)
qed

theorem pending_buffer_bounded_witness:
  "buffers_bounded (run_ops (replicate 1000 (Buffer_message 0 ''a'' (MsgStr ''x''))) new_manager) \<and>
   message_buffer (run_ops (replicate 1000 (Buffer_message 0 ''a'' (MsgStr ''x''))) new_manager) ''a''
     = Some (replicate 1000 (prepare_message 0 (MsgStr ''x''))) \<and>
   length (replicate 1000 (prepare_message 0 (MsgStr ''x''))) = 1000 \<and>
   message_buffer (buffer_message 5 ''a'' (MsgStr ''y'')
       (run_ops (replicate 1000 (Buffer_message 0 ''a'' (MsgStr ''x''))) new_manager)) ''a''
     = Some (tl (replicate 1000 (prepare_message 0 (MsgStr ''x''))) @ [prepare_message 5 (MsgStr ''y'')])"
  using pending_buffer_bounded [of "replicate 1000 (Buffer_message 0 ''a'' (MsgStr ''x''))" "''a''" 5 "MsgStr ''y''"]
    buffer_message_replicate [of 1000 0 "''a''" "MsgStr ''x''"]
  by (simp add: run_ops_def)

subsection \<open>ConnectionManager: disconnecting twice\<close>







subsection \<open>ConnectionManager: reconnecting\<close>

lemmas manager_eval = connect_def ws_accept_def ws_call_def ws_result_def
        fresh_websocket_def new_manager_def send_buffered_messages_def Let_def
        disconnect_def ws_close_def send_message_def buffer_message_def
        prepare_message_def dict_set_def transport_def

text \<open>
  Claim C2. A terminal connects, is disconnected, and is sent five messages, which are
  buffered in order. On the next \<open>connect\<close> the buffer is emptied before
  \<open>_send_buffered_messages\<close> reads it: the buffer is empty afterwards and nothing
  was sent on the new transport.
\<close>

theorem reconnect_drops_buffered_messages:
  "message_buffer five_buffered ''t1'' =
     Some (map (\<lambda>(now, s). prepare_message now (MsgStr s))
            [(11, ''m1''), (12, ''m2''), (13, ''m3''), (14, ''m4''), (15, ''m5'')]) \<and>
   message_buffer (connect 20 ''t1'' fresh_websocket None five_buffered) ''t1'' = Some [] \<and>
   map_option sent_json (transport (connect 20 ''t1'' fresh_websocket None five_buffered) ''t1'') = Some []"
  by (simp add: five_buffered_def connected_once_def manager_eval)

subsection \<open>ConversationManager: adding a message\<close>

lemma tuple_key_raises:
  "conversation_getitem c (TupleKey a b) = Inl (KeyError (TupleKey a b))"
  by (simp add: conversation_getitem_def)

lemma terminal2_id_found:
  "conversation_getitem c (StrKey ''terminal2_id'') = Inr (VStr (terminal2_id c))"
  by (simp add: conversation_getitem_def)

text \<open>
  Claim C9. For an existing, active conversation below its message limit and any sender,
  \<open>add_message\<close> raises \<open>ConversationError\<close>, wrapping the \<open>KeyError\<close> of the tuple
  subscript, returns no message id, and leaves the manager, and so the conversation's
  message list, as it was.
\<close>

theorem add_message_always_raises:
  assumes "active_conversations m conversation_id = Some c"
    and "status c = Conv_ACTIVE"
    and "int (length (messages c)) < message_limit (config m)"
  shows "add_message now conversation_id content sender_id md m =
           (Inl (Failed_to_add_message (KeyError (TupleKey ''terminal1_id'' (VStr (terminal2_id c))))), m)"
  using assms
  by (simp add: add_message_def add_message_body_def tuple_key_raises terminal2_id_found)

theorem add_message_always_raises_witness:
  "(\<exists>c. active_conversations one_conversation ''c1'' = Some c \<and> status c = Conv_ACTIVE \<and>
        terminal1_id c = ''A'' \<and>
        int (length (messages c)) < message_limit (config one_conversation)) \<and>
   add_message 5 ''c1'' ''hello'' ''A'' None one_conversation =
     (Inl (Failed_to_add_message (KeyError (TupleKey ''terminal1_id'' (VStr ''B'')))), one_conversation)"
proof -
  have c: "active_conversations one_conversation ''c1'' = Some (new_conversation 0 ''c1'' ''A'' ''B'' None)"
    by (simp add: one_conversation_def)
  have s: "status (new_conversation 0 ''c1'' ''A'' ''B'' None) = Conv_ACTIVE"
    by (simp add: new_conversation_def)
  have l: "int (length (messages (new_conversation 0 ''c1'' ''A'' ''B'' None)))
             < message_limit (config one_conversation)"
    by (simp add: new_conversation_def one_conversation_def default_config_def)
  show ?thesis
    using add_message_always_raises [OF c s l, of 5 "''hello''" "''A''" None] c s l
    by (simp add: new_conversation_def)
qed

subsection \<open>AITerminal: the bounded history\<close>

lemma last_n_short: "length xs \<le> n \<Longrightarrow> last_n n xs = xs"
  by (simp add: last_n_def)

lemma add_to_history_eq:
  "conversation_history (add_to_history message t)
     = last_n MAX_HISTORY_SIZE (conversation_history t @ [message])"
  by (simp add: add_to_history_def Let_def last_n_short)

lemma add_to_history_length:
  "length (conversation_history (add_to_history message t)) \<le> MAX_HISTORY_SIZE"
  by (simp add: add_to_history_eq length_last_n)

lemma history_bounded_update:
  assumes "history_bounded w"
    and "length (conversation_history (f (objects w a))) \<le> MAX_HISTORY_SIZE"
  shows "history_bounded (update_terminal a f w)"
  using assms by (simp add: history_bounded_def update_terminal_def)

lemma history_bounded_uuids [simp]:
  "history_bounded (w\<lparr>uuids_taken := n\<rparr>) = history_bounded w"
  by (simp add: history_bounded_def)

lemma send_receive_bounded:
  "history_bounded w \<Longrightarrow> history_bounded (snd (terminal_send_message depth now self content recipient w))"
  "history_bounded w \<Longrightarrow> history_bounded (snd (receive_message depth now self' message w))"
proof (induction depth now self content recipient w and depth now self' message w
       rule: terminal_send_message_receive_message.induct)
  case (1 now self content recipient w)
  then show ?case by simp
next
  case (2 depth now self content recipient w)
  show ?case
  proof (cases "current_conversation_id (objects w self)")
    case None
    with 2 show ?thesis by simp
  next
    case (Some conversation)
    show ?thesis
    proof (cases "conversation = []")
      case True
      with Some 2 show ?thesis by simp
    next
      case False
      with Some show ?thesis
        using "2.prems"
        by (auto simp: Let_def intro!: "2.IH" history_bounded_update add_to_history_length)
    qed
  qed
next
  case (3 now self message w)
  then show ?case by simp
next
  case (4 depth now self message w)
  let ?w1 = "update_terminal self (add_to_history message) w"
  have w1: "history_bounded ?w1"
    using "4.prems" by (simp add: history_bounded_update add_to_history_length)
  show ?case
  proof (cases "tm_conversation_id message \<in> t_active_conversations (objects ?w1 self)")
    case False
    with w1 show ?thesis by (simp add: Let_def)
  next
    case True
    show ?thesis
    proof (cases "registry ?w1 (tm_sender_id message)")
      case None
      with True w1 show ?thesis by (simp add: Let_def)
    next
      case (Some sender)
      let ?r = "terminal_send_message depth now self (generate_response now ?w1 (objects ?w1 self) message) sender ?w1"
      have ih: "history_bounded (snd ?r)"
        using "4.IH" [OF refl True refl Some w1] .
      obtain e w2 where r: "?r = (e, w2)" by (cases ?r)
      with ih have w2: "history_bounded w2" by simp
      have "history_bounded (update_terminal self (\<lambda>t. t\<lparr>t_status := T_ERROR\<rparr>) w2)"
        using w2 by (rule history_bounded_update) (simp add: history_bounded_def w2[unfolded history_bounded_def])
      with True Some r w2 show ?thesis
        by (simp add: Let_def split: option.splits)
    qed
  qed
qed

lemma apply_terminal_op_bounded:
  "history_bounded w \<Longrightarrow> history_bounded (apply_terminal_op depth op w)"
  by (cases op) (simp_all add: send_receive_bounded)

lemma fold_terminal_ops_bounded:
  "history_bounded w \<Longrightarrow> history_bounded (fold (apply_terminal_op depth) ops w)"
  by (induction ops arbitrary: w) (simp_all add: apply_terminal_op_bounded)

text \<open>
  Claim C10. From a world in which every terminal's history holds at most
  \<open>MAX_HISTORY_SIZE\<close> = 1000 messages (a new terminal's is empty), any sequence of
  \<open>send_message\<close> and \<open>receive_message\<close> calls, at any stack depth, leaves every
  history at 1000 messages or fewer; and \<open>_add_to_history\<close> leaves the most recent
  1000 of the old history followed by the new message.
\<close>

theorem history_never_exceeds_max:
  assumes "history_bounded w"
  shows "history_bounded (run_terminal_ops depth ops w) \<and>
         conversation_history (add_to_history message t)
           = last_n MAX_HISTORY_SIZE (conversation_history t @ [message]) \<and>
         length (conversation_history (add_to_history message t)) \<le> MAX_HISTORY_SIZE"
  using assms
  by (simp add: run_terminal_ops_def fold_terminal_ops_bounded add_to_history_eq length_last_n)

lemma two_terminals_bounded: "history_bounded two_terminals"
  by (simp add: history_bounded_def two_terminals_def new_terminal_def)

lemma two_terminals_send:
  "map tm_content (conversation_history
       (objects (run_terminal_ops 1000 [Send 7 0 ''hi'' 1] two_terminals) 1)) = [''hi'']"
  by (simp add: run_terminal_ops_def two_terminals_def new_terminal_def numeral_eq_Suc
      update_terminal_def add_to_history_def Let_def MAX_HISTORY_SIZE_def)

theorem history_never_exceeds_max_witness:
  "history_bounded two_terminals \<and>
   history_bounded (run_terminal_ops 1000 [Send 7 0 ''hi'' 1] two_terminals) \<and>
   map tm_content (conversation_history
       (objects (run_terminal_ops 1000 [Send 7 0 ''hi'' 1] two_terminals) 1)) = [''hi''] \<and>
   length (conversation_history (add_to_history
       \<lparr>tm_content = ''x'', tm_timestamp = 0, tm_sender_id = ''A'', tm_conversation_id = ''c'',
        tm_message_id = ''u'', tm_metadata = []\<rparr> (new_terminal ''B'' ''gpt''))) \<le> MAX_HISTORY_SIZE"
  using history_never_exceeds_max [OF two_terminals_bounded, of 1000 "[Send 7 0 ''hi'' 1]"
      "\<lparr>tm_content = ''x'', tm_timestamp = 0, tm_sender_id = ''A'', tm_conversation_id = ''c'',
        tm_message_id = ''u'', tm_metadata = []\<rparr>" "new_terminal ''B'' ''gpt''"]
    two_terminals_bounded two_terminals_send
  by blast

subsection \<open>ConversationService: the rate limit\<close>

lemma good_add_message:
  assumes "good_call call"
    and "\<forall>ts\<in>set (recorded sv sender). now_check call - seconds RATE_LIMIT_WINDOW < ts"
    and "length (recorded sv sender) < MAX_MESSAGES_PER_WINDOW"
  shows "service_add_message call cid content sender sv
           = (Inr (new_uuid call),
              sv\<lparr>rate_limits := (rate_limits sv)(sender \<mapsto> recorded sv sender @ [now_record call])\<rparr>)"
proof -
  have keep: "filter (\<lambda>ts. now_check call - seconds RATE_LIMIT_WINDOW < ts) (recorded sv sender)
                = recorded sv sender"
    using assms(2) by (simp add: filter_id_conv)
  show ?thesis
    using assms(1,3) keep
    by (simp add: service_add_message_def check_rate_limit_def update_rate_limit_def
        Let_def good_call_def recorded_def)
qed

lemma limited_add_message:
  assumes "\<forall>ts\<in>set (recorded sv sender). now_check call - seconds RATE_LIMIT_WINDOW < ts"
    and "length (recorded sv sender) \<ge> MAX_MESSAGES_PER_WINDOW"
    and "rollback call = None"
  shows "fst (service_add_message call cid content sender sv) = Inl ConversationRateLimitError"
proof -
  have keep: "filter (\<lambda>ts. now_check call - seconds RATE_LIMIT_WINDOW < ts) (recorded sv sender)
                = recorded sv sender"
    using assms(1) by (simp add: filter_id_conv)
  show ?thesis
    using assms(2,3) keep
    by (simp add: service_add_message_def check_rate_limit_def Let_def recorded_def reraise_def)
qed

lemma good_add_messages:
  assumes "\<forall>call\<in>set calls. good_call call"
    and "\<forall>call\<in>set calls. \<forall>ts\<in>set (recorded sv sender @ map now_record calls).
            now_check call - seconds RATE_LIMIT_WINDOW < ts"
    and "length (recorded sv sender) + length calls \<le> MAX_MESSAGES_PER_WINDOW"
  shows "fst (add_messages calls cid content sender sv) = map (\<lambda>call. Inr (new_uuid call)) calls \<and>
         recorded (snd (add_messages calls cid content sender sv)) sender
           = recorded sv sender @ map now_record calls"
  using assms
proof (induction calls arbitrary: sv)
  case Nil
  show ?case by simp
next
  case (Cons call calls)
  let ?sv1 = "sv\<lparr>rate_limits := (rate_limits sv)(sender \<mapsto> recorded sv sender @ [now_record call])\<rparr>"
  have step: "service_add_message call cid content sender sv = (Inr (new_uuid call), ?sv1)"
    using Cons.prems by (intro good_add_message) auto
  have rec1: "recorded ?sv1 sender = recorded sv sender @ [now_record call]"
    by (simp add: recorded_def)
  have ih: "fst (add_messages calls cid content sender ?sv1) = map (\<lambda>call. Inr (new_uuid call)) calls \<and>
         recorded (snd (add_messages calls cid content sender ?sv1)) sender
           = recorded ?sv1 sender @ map now_record calls"
    using Cons.prems by (intro Cons.IH) (auto simp: rec1)
  obtain rs sv2 where rest: "add_messages calls cid content sender ?sv1 = (rs, sv2)"
    by (cases "add_messages calls cid content sender ?sv1")
  show ?case
    using step ih rest by (simp add: rec1)
qed

lemma add_messages_append:
  "add_messages (xs @ ys) cid content sender sv =
     (case add_messages xs cid content sender sv of
        (rs, sv1) \<Rightarrow> (case add_messages ys cid content sender sv1 of
                        (rs', sv2) \<Rightarrow> (rs @ rs', sv2)))"
  by (induction xs arbitrary: sv) (auto split: prod.splits)

text \<open>
  Claim C5. A sender with no recorded timestamp makes 101 calls of \<open>add_message\<close>. The
  first 100 find their conversation active and complete, and every one of the 101 rate
  checks is made less than 60 seconds after each of the 100 recordings (the calls lie in
  one window). Then each of the first 100 calls returns its message id and the 101st, and
  only it, raises \<open>ConversationRateLimitError\<close> (its rollback returning).
\<close>

theorem rate_limit_rejects_101st:
  assumes "recorded sv sender = []"
    and "length calls = 100"
    and "\<forall>call\<in>set calls. good_call call"
    and "\<forall>call\<in>set (calls @ [last_call]). \<forall>earlier\<in>set calls.
            now_check call - seconds RATE_LIMIT_WINDOW < now_record earlier"
    and "rollback last_call = None"
  shows "fst (add_messages (calls @ [last_call]) cid content sender sv)
           = map (\<lambda>call. Inr (new_uuid call)) calls @ [Inl ConversationRateLimitError]"
proof -
  obtain rs sv1 where run: "add_messages calls cid content sender sv = (rs, sv1)"
    by (cases "add_messages calls cid content sender sv")
  have "fst (add_messages calls cid content sender sv) = map (\<lambda>call. Inr (new_uuid call)) calls \<and>
         recorded (snd (add_messages calls cid content sender sv)) sender
           = recorded sv sender @ map now_record calls"
    using assms(1-4) by (intro good_add_messages) (auto simp: MAX_MESSAGES_PER_WINDOW_def)
  with run assms(1) have rs: "rs = map (\<lambda>call. Inr (new_uuid call)) calls"
    and rec: "recorded sv1 sender = map now_record calls" by simp_all
  have "fst (service_add_message last_call cid content sender sv1) = Inl ConversationRateLimitError"
    using assms(2,4,5) by (intro limited_add_message) (auto simp: rec MAX_MESSAGES_PER_WINDOW_def)
  moreover obtain r2 sv2 where "service_add_message last_call cid content sender sv1 = (r2, sv2)"
    by (cases "service_add_message last_call cid content sender sv1")
  ultimately show ?thesis
    using run rs by (simp add: add_messages_append)
qed

theorem rate_limit_rejects_101st_witness:
  "recorded new_service ''A'' = [] \<and> length (replicate 100 (call_at 0)) = 100 \<and>
   good_call (call_at 0) \<and> rollback (call_at 59) = None \<and>
   now_check (call_at 59) - seconds RATE_LIMIT_WINDOW < now_record (call_at 0) \<and>
   fst (add_messages (replicate 100 (call_at 0) @ [call_at 59]) ''c'' ''hello'' ''A'' new_service)
     = replicate 100 (Inr ''id'') @ [Inl ConversationRateLimitError]"
proof -
  have r: "recorded new_service ''A'' = []" by (simp add: recorded_def new_service_def)
  have l: "length (replicate 100 (call_at 0)) = 100" by simp
  have g: "good_call (call_at 0)" by (simp add: good_call_def call_at_def)
  have w: "now_check (call_at 59) - seconds RATE_LIMIT_WINDOW < now_record (call_at 0)"
    "now_check (call_at 0) - seconds RATE_LIMIT_WINDOW < now_record (call_at 0)"
    by (simp_all add: call_at_def seconds_def RATE_LIMIT_WINDOW_def)
  have gs: "\<forall>call\<in>set (replicate 100 (call_at 0)). good_call call" using g by simp
  have ws: "\<forall>call\<in>set (replicate 100 (call_at 0) @ [call_at 59]).
              \<forall>earlier\<in>set (replicate 100 (call_at 0)).
                now_check call - seconds RATE_LIMIT_WINDOW < now_record earlier"
    using w by auto
  have rb: "rollback (call_at 59) = None" by (simp add: call_at_def)
  have "map (\<lambda>call. Inr (new_uuid call)) (replicate 100 (call_at 0))
          = (replicate 100 (Inr ''id'') :: (service_error + string) list)"
    by (simp add: call_at_def)
  then show ?thesis
    using rate_limit_rejects_101st [OF r l gs ws rb, of "''c''" "''hello''"] r g w(1) rb
    by simp
qed

subsection \<open>MessagingService: the order of draining\<close>









subsection \<open>MessagingService: a full queue, and retries\<close>




text \<open>
  The same holds in general. A message is handled by the worker once, when it is taken from
  its queue, and at that time its entry has no attempt.
\<close>

lemma untried_less: "untried sv i \<Longrightarrow> i < uuid_count sv"
  by (simp add: untried_def)

lemma send_never_failed:
  "never_failed sv \<Longrightarrow> never_failed (snd (messaging_send_message now s r c p md tmo sv))"
  unfolding never_failed_def messaging_send_message_def Let_def
  by (auto split: option.splits if_splits)

lemma send_queued_ids:
  "queued_ids (snd (messaging_send_message now s r c p md tmo sv)) t = queued_ids sv t \<or>
   (t = r \<and> queued_ids (snd (messaging_send_message now s r c p md tmo sv)) t
             = queued_ids sv t @ [uuid_count sv])"
  unfolding queued_ids_def messaging_send_message_def Let_def
  by (auto split: option.splits if_splits)

lemma send_untried:
  "untried sv i \<Longrightarrow> untried (snd (messaging_send_message now s r c p md tmo sv)) i"
  unfolding untried_def messaging_send_message_def Let_def
  by (auto split: option.splits if_splits)

lemma send_untried_new:
  "uuid_count sv \<in> set (queued_ids (snd (messaging_send_message now s r c p md tmo sv)) t) \<Longrightarrow>
   \<forall>t. \<forall>i\<in>set (queued_ids sv t). i < uuid_count sv \<Longrightarrow>
   untried (snd (messaging_send_message now s r c p md tmo sv)) (uuid_count sv)"
  unfolding untried_def queued_ids_def messaging_send_message_def Let_def
  by (auto split: option.splits if_splits)

lemma send_queued_once:
  assumes "queued_once sv"
  shows "queued_once (snd (messaging_send_message now s r c p md tmo sv))"
proof -
  let ?sv' = "snd (messaging_send_message now s r c p md tmo sv)"
  have less: "\<forall>t. \<forall>i\<in>set (queued_ids sv t). i < uuid_count sv"
    using assms unfolding queued_once_def by (auto dest: untried_less)
  have fresh: "\<And>t. uuid_count sv \<notin> set (queued_ids sv t)"
    using less by (meson less_irrefl)
  have ids: "set (queued_ids ?sv' t) \<subseteq> insert (uuid_count sv) (set (queued_ids sv t))" for t
    using send_queued_ids [of now s r c p md tmo sv t] by auto
  show ?thesis
    unfolding queued_once_def
  proof (intro conjI allI impI ballI)
    fix t
    show "distinct (queued_ids ?sv' t)"
      using send_queued_ids [of now s r c p md tmo sv t] assms fresh [of t]
      unfolding queued_once_def by auto
  next
    fix t i
    assume i: "i \<in> set (queued_ids ?sv' t)"
    show "untried ?sv' i"
    proof (cases "i = uuid_count sv")
      case True
      then show ?thesis using send_untried_new [OF _ less] i by blast
    next
      case False
      then have "i \<in> set (queued_ids sv t)" using ids [of t] i by auto
      then show ?thesis using assms unfolding queued_once_def by (auto intro: send_untried)
    qed
  next
    fix t t' :: string
    assume ne: "t \<noteq> t'"
    show "set (queued_ids ?sv' t) \<inter> set (queued_ids ?sv' t') = {}"
    proof -
      have "set (queued_ids sv t) \<inter> set (queued_ids sv t') = {}"
        using assms ne unfolding queued_once_def by blast
      moreover have "\<not> (uuid_count sv \<in> set (queued_ids ?sv' t) \<and> uuid_count sv \<in> set (queued_ids ?sv' t'))"
        using send_queued_ids [of now s r c p md tmo sv t] send_queued_ids [of now s r c p md tmo sv t']
          fresh [of t] fresh [of t'] ne by auto
      ultimately show ?thesis
        using ids [of t] ids [of t'] fresh [of t] fresh [of t'] by blast
    qed
  qed
qed

lemma send_unqueued:
  assumes "i < uuid_count sv" and "\<forall>t. i \<notin> set (queued_ids sv t)"
  shows "i \<notin> set (queued_ids (snd (messaging_send_message now s r c p md tmo sv)) t)"
  using send_queued_ids [of now s r c p md tmo sv t] assms by auto

lemma counted_queued_ids [simp]:
  "queued_ids (sv\<lparr>message_states := f\<rparr>) = queued_ids sv"
  by (simp add: queued_ids_def fun_eq_iff)

lemma handle_failed_inv:
  assumes nf: "never_failed sv" and qo: "queued_once sv"
    and un: "untried sv (qm_id m)" and uq: "\<forall>t. qm_id m \<notin> set (queued_ids sv t)"
  shows "never_failed (snd (snd (handle_failed_message now m sv)))"
    and "queued_once (snd (snd (handle_failed_message now m sv)))"
    and "\<And>i. i \<noteq> qm_id m \<Longrightarrow> untried sv i \<Longrightarrow> untried (snd (snd (handle_failed_message now m sv))) i"
    and "\<And>i t. i < uuid_count sv \<Longrightarrow> \<forall>t. i \<notin> set (queued_ids sv t) \<Longrightarrow>
            i \<notin> set (queued_ids (snd (snd (handle_failed_message now m sv))) t)"
proof -
  let ?sv2 = "snd (snd (handle_failed_message now m sv))"
  have "never_failed ?sv2 \<and> queued_once ?sv2 \<and>
        (\<forall>i. i \<noteq> qm_id m \<longrightarrow> untried sv i \<longrightarrow> untried ?sv2 i) \<and>
        (\<forall>i t. i < uuid_count sv \<longrightarrow> (\<forall>t. i \<notin> set (queued_ids sv t)) \<longrightarrow> i \<notin> set (queued_ids ?sv2 t))"
  proof (cases "message_states sv (qm_id m)")
    case None
    then have "?sv2 = sv" by (simp add: handle_failed_message_def)
    then show ?thesis using nf qo by simp
  next
    case (Some st)
    have a0: "attempts st = 0" using un Some by (simp add: untried_def)
    have st: "ms_state st \<noteq> FAILED" using nf Some by (simp add: never_failed_def)
    let ?sv1 = "sv\<lparr>message_states := (message_states sv)(qm_id m \<mapsto> st\<lparr>attempts := attempts st + 1\<rparr>)\<rparr>"
    have nf1: "never_failed ?sv1"
      using nf a0 st unfolding never_failed_def by auto
    have un1: "untried ?sv1 i" if "i \<noteq> qm_id m" "untried sv i" for i
      using that unfolding untried_def by auto
    have qo1: "queued_once ?sv1"
      using qo uq un1 unfolding queued_once_def by (auto simp: untried_def)
    show ?thesis
    proof (cases "priority_of_value (qm_priority m)")
      case None
      then have "?sv2 = ?sv1"
        using Some a0 by (simp add: handle_failed_message_def Let_def MESSAGE_MAX_RETRY_ATTEMPTS_def)
      then show ?thesis using nf1 qo1 un1 by simp
    next
      case p: (Some p)
      let ?r = "messaging_send_message (now + seconds (2 ^ (attempts st + 1))) (qm_sender_id m)
                  (qm_recipient_id m) (qm_content m) p (Some (qm_metadata m)) None ?sv1"
      have sv2: "?sv2 = snd ?r"
        using Some p a0
        by (cases ?r) (auto simp: handle_failed_message_def Let_def MESSAGE_MAX_RETRY_ATTEMPTS_def
            split: sum.splits)
      have "never_failed (snd ?r)" using nf1 by (rule send_never_failed)
      moreover have "queued_once (snd ?r)" using qo1 by (rule send_queued_once)
      moreover have "untried (snd ?r) i" if "i \<noteq> qm_id m" "untried sv i" for i
        using un1 [OF that] by (rule send_untried)
      moreover have "i \<notin> set (queued_ids (snd ?r) t)"
        if "i < uuid_count sv" "\<forall>t. i \<notin> set (queued_ids sv t)" for i t
        using that by (intro send_unqueued) simp_all
      ultimately show ?thesis unfolding sv2 by blast
    qed
  qed
  then show "never_failed ?sv2" and "queued_once ?sv2"
    and "\<And>i. i \<noteq> qm_id m \<Longrightarrow> untried sv i \<Longrightarrow> untried ?sv2 i"
    and "\<And>i t. i < uuid_count sv \<Longrightarrow> \<forall>t. i \<notin> set (queued_ids sv t) \<Longrightarrow> i \<notin> set (queued_ids ?sv2 t)"
    by blast+
qed

lemma batch_inv:
  assumes "never_failed sv" and "queued_once sv"
    and "distinct (map qm_id ms)"
    and "\<forall>m\<in>set ms. untried sv (qm_id m) \<and> (\<forall>t. qm_id m \<notin> set (queued_ids sv t))"
  shows "never_failed (snd (snd (process_message_batch now ms sv))) \<and>
         queued_once (snd (snd (process_message_batch now ms sv)))"
  using assms
proof (induction ms arbitrary: now sv)
  case Nil
  then show ?case by simp
next
  case (Cons m ms)
  show ?case
  proof (cases "message_states sv (qm_id m)")
    case None
    then show ?thesis using Cons by simp
  next
    case (Some st)
    obtain e later sv1 where h: "handle_failed_message now m sv = (e, later, sv1)"
      by (cases "handle_failed_message now m sv") auto
    have m: "untried sv (qm_id m)" "\<forall>t. qm_id m \<notin> set (queued_ids sv t)"
      using Cons.prems(4) by simp_all
    note inv = handle_failed_inv [OF Cons.prems(1,2) m, where now = now, unfolded h, simplified]
    have rest: "\<forall>m'\<in>set ms. untried sv1 (qm_id m') \<and> (\<forall>t. qm_id m' \<notin> set (queued_ids sv1 t))"
    proof
      fix m' assume m': "m' \<in> set ms"
      then have ne: "qm_id m' \<noteq> qm_id m" using Cons.prems(3) by (metis distinct.simps(2) image_eqI list.simps(9) set_map)
      have u: "untried sv (qm_id m')" and q: "\<forall>t. qm_id m' \<notin> set (queued_ids sv t)"
        using Cons.prems(4) m' by simp_all
      show "untried sv1 (qm_id m') \<and> (\<forall>t. qm_id m' \<notin> set (queued_ids sv1 t))"
        using inv(3) [OF ne u] inv(4) [OF untried_less [OF u] q] by simp
    qed
    have ih: "never_failed (snd (snd (process_message_batch later ms sv1))) \<and>
              queued_once (snd (snd (process_message_batch later ms sv1)))"
      using Cons.prems(3) by (intro Cons.IH inv(1,2) rest) simp
    show ?thesis
      using Some h inv(1,2) ih
      by (cases e) (simp_all add: process_one_def)
  qed
qed

lemma queued_ids_shrink:
  assumes "queued_once sv"
    and "\<And>t. \<exists>n. queued_ids sv' t = drop n (queued_ids sv t) \<or> queued_ids sv' t = []"
    and "\<And>i. untried sv i \<Longrightarrow> untried sv' i"
  shows "queued_once sv'"
  unfolding queued_once_def
proof (intro conjI allI impI ballI)
  fix t
  obtain n where n: "queued_ids sv' t = drop n (queued_ids sv t) \<or> queued_ids sv' t = []"
    using assms(2) by blast
  then show "distinct (queued_ids sv' t)"
    using assms(1) unfolding queued_once_def by auto
  fix i assume "i \<in> set (queued_ids sv' t)"
  then have "i \<in> set (queued_ids sv t)" using n by (auto dest: in_set_dropD)
  then show "untried sv' i" using assms(1,3) unfolding queued_once_def by blast
next
  fix t t' :: string
  assume ne: "t \<noteq> t'"
  have sub: "set (queued_ids sv' u) \<subseteq> set (queued_ids sv u)" for u
    using assms(2) [of u] by (auto dest: in_set_dropD)
  have "set (queued_ids sv t) \<inter> set (queued_ids sv t') = {}"
    using assms(1) ne unfolding queued_once_def by blast
  then show "set (queued_ids sv' t) \<inter> set (queued_ids sv' t') = {}"
    using sub [of t] sub [of t'] by blast
qed

lemma worker_retry_inv:
  assumes nf: "never_failed sv" and qo: "queued_once sv"
  shows "never_failed (worker_round now tid sv) \<and> queued_once (worker_round now tid sv)"
proof (cases "tid \<in> active sv")
  case False
  then show ?thesis using assms by (simp add: worker_round_def)
next
  case True
  show ?thesis
  proof (cases "message_queues sv tid")
    case None
    then show ?thesis using assms True by (simp add: worker_round_def)
  next
    case (Some q)
    let ?batch = "take BATCH_SIZE (items q)"
    let ?sv1 = "sv\<lparr>message_queues := (message_queues sv)(tid \<mapsto> q\<lparr>items := drop BATCH_SIZE (items q)\<rparr>)\<rparr>"
    have ids: "queued_ids sv tid = map qm_id (items q)"
      using Some by (simp add: queued_ids_def)
    have ids1: "queued_ids ?sv1 t = (if t = tid then drop BATCH_SIZE (queued_ids sv tid) else queued_ids sv t)" for t
      using Some by (simp add: queued_ids_def drop_map)
    have un1: "untried ?sv1 i = untried sv i" for i by (simp add: untried_def)
    have nf1: "never_failed ?sv1" using nf by (simp add: never_failed_def)
    have qo1: "queued_once ?sv1"
    proof (rule queued_ids_shrink [OF qo])
      fix t show "\<exists>n. queued_ids ?sv1 t = drop n (queued_ids sv t) \<or> queued_ids ?sv1 t = []"
        by (cases "t = tid") (auto simp: ids1 intro: exI [of _ 0])
    qed (simp add: un1)
    have d: "distinct (queued_ids sv tid)" using qo unfolding queued_once_def by blast
    have bd: "distinct (map qm_id ?batch)"
      using d by (simp add: ids take_map [symmetric])
    have batch: "\<forall>m\<in>set ?batch. untried ?sv1 (qm_id m) \<and> (\<forall>t. qm_id m \<notin> set (queued_ids ?sv1 t))"
    proof
      fix m assume m: "m \<in> set ?batch"
      then have in_take: "qm_id m \<in> set (take BATCH_SIZE (queued_ids sv tid))"
        by (simp add: ids take_map)
      then have in_q: "qm_id m \<in> set (queued_ids sv tid)" by (rule in_set_takeD)
      have u: "untried ?sv1 (qm_id m)"
        using qo in_q unfolding queued_once_def un1 by blast
      have "qm_id m \<notin> set (queued_ids ?sv1 t)" for t
      proof (cases "t = tid")
        case True
        have "set (take BATCH_SIZE (queued_ids sv tid)) \<inter> set (drop BATCH_SIZE (queued_ids sv tid)) = {}"
          using d by (metis append_take_drop_id distinct_append)
        then show ?thesis using in_take True by (auto simp: ids1)
      next
        case False
        have "set (queued_ids sv tid) \<inter> set (queued_ids sv t) = {}"
          using qo False unfolding queued_once_def by blast
        then show ?thesis using in_q False by (auto simp: ids1)
      qed
      with u show "untried ?sv1 (qm_id m) \<and> (\<forall>t. qm_id m \<notin> set (queued_ids ?sv1 t))" by blast
    qed
    show ?thesis
      using True Some nf1 qo1 batch_inv [OF nf1 qo1 bd batch, of now]
      by (simp add: worker_round_def collect_batch_def Let_def)
  qed
qed

lemma get_retry_inv:
  assumes nf: "never_failed sv" and qo: "queued_once sv"
  shows "never_failed (snd (get_message tid sv)) \<and> queued_once (snd (get_message tid sv))"
proof -
  let ?sv' = "snd (get_message tid sv)"
  have nf': "never_failed ?sv'"
    using nf unfolding never_failed_def get_message_def
    by (auto split: option.splits list.splits if_splits)
  have un: "untried sv i \<Longrightarrow> untried ?sv' i" for i
    unfolding untried_def get_message_def
    by (auto split: option.splits list.splits if_splits)
  have ids: "\<exists>n. queued_ids ?sv' t = drop n (queued_ids sv t) \<or> queued_ids ?sv' t = []" for t
  proof -
    have "queued_ids ?sv' t = drop 0 (queued_ids sv t) \<or> queued_ids ?sv' t = drop 1 (queued_ids sv t)"
      unfolding queued_ids_def get_message_def
      by (auto split: option.splits list.splits if_splits)
    then show ?thesis by blast
  qed
  show ?thesis using nf' queued_ids_shrink [OF qo ids un] by blast
qed

lemma sweep_retry_inv:
  assumes nf: "never_failed sv" and qo: "queued_once sv"
  shows "never_failed (cleanup_expired now sv) \<and> queued_once (cleanup_expired now sv)"
proof -
  have nf': "never_failed (cleanup_expired now sv)"
    using nf unfolding never_failed_def cleanup_expired_def
    by (auto split: option.splits if_splits)
  have un: "untried sv i \<Longrightarrow> untried (cleanup_expired now sv) i" for i
    unfolding untried_def cleanup_expired_def
    by (auto split: option.splits if_splits)
  have ids: "\<exists>n. queued_ids (cleanup_expired now sv) t = drop n (queued_ids sv t) \<or>
                 queued_ids (cleanup_expired now sv) t = []" for t
    by (rule exI [of _ 0]) (simp add: queued_ids_def cleanup_expired_def)
  show ?thesis using nf' queued_ids_shrink [OF qo ids un] by blast
qed

lemma register_retry_inv:
  assumes nf: "never_failed sv" and qo: "queued_once sv"
  shows "never_failed (snd (register_terminal terminal n sv)) \<and>
         queued_once (snd (register_terminal terminal n sv))"
proof -
  let ?sv' = "snd (register_terminal terminal n sv)"
  have nf': "never_failed ?sv'"
    using nf unfolding never_failed_def register_terminal_def by auto
  have un: "untried sv i \<Longrightarrow> untried ?sv' i" for i
    unfolding untried_def register_terminal_def by auto
  have ids: "\<exists>n. queued_ids ?sv' t = drop n (queued_ids sv t) \<or> queued_ids ?sv' t = []" for t
  proof -
    have "queued_ids ?sv' t = drop 0 (queued_ids sv t) \<or> queued_ids ?sv' t = []"
      unfolding queued_ids_def register_terminal_def
      by (auto split: option.splits if_splits)
    then show ?thesis by blast
  qed
  show ?thesis using nf' queued_ids_shrink [OF qo ids un] by blast
qed

lemma unregister_retry_inv:
  assumes nf: "never_failed sv" and qo: "queued_once sv"
  shows "never_failed (snd (unregister_terminal tid cleanup sv)) \<and>
         queued_once (snd (unregister_terminal tid cleanup sv))"
proof -
  let ?sv' = "snd (unregister_terminal tid cleanup sv)"
  have nf': "never_failed ?sv'"
    using nf unfolding never_failed_def unregister_terminal_def Let_def
    by (auto split: option.splits list.splits if_splits)
  have un: "untried sv i \<Longrightarrow> untried ?sv' i" for i
    unfolding untried_def unregister_terminal_def Let_def
    by (auto split: option.splits list.splits if_splits)
  have ids: "\<exists>n. queued_ids ?sv' t = drop n (queued_ids sv t) \<or> queued_ids ?sv' t = []" for t
  proof -
    have "queued_ids ?sv' t = drop 0 (queued_ids sv t) \<or> queued_ids ?sv' t = drop 1 (queued_ids sv t)
          \<or> queued_ids ?sv' t = []"
      unfolding queued_ids_def unregister_terminal_def Let_def
      by (auto split: option.splits list.splits if_splits)
    then show ?thesis by blast
  qed
  show ?thesis using nf' queued_ids_shrink [OF qo ids un] by blast
qed

lemma apply_service_op_retry_inv:
  assumes "never_failed sv \<and> queued_once sv"
  shows "never_failed (apply_service_op op sv) \<and> queued_once (apply_service_op op sv)"
  using assms
  by (cases op)
     (simp_all add: register_retry_inv unregister_retry_inv send_never_failed send_queued_once
        worker_retry_inv get_retry_inv sweep_retry_inv)

lemma run_service_ops_retry_inv:
  "never_failed sv \<and> queued_once sv \<Longrightarrow>
   never_failed (run_service_ops ops sv) \<and> queued_once (run_service_ops ops sv)"
  unfolding run_service_ops_def
proof (induction ops arbitrary: sv)
  case Nil
  then show ?case by simp
next
  case (Cons op ops)
  from apply_service_op_retry_inv [OF Cons.prems, of op] show ?case
    by (simp add: Cons.IH)
qed

text \<open>
  Whatever operations run on a new service, no envelope is ever \<open>FAILED\<close> and none
  has more than one attempt counted: the third failure that \<open>_handle_failed_message\<close>
  checks for does not come.
\<close>

lemma no_envelope_ever_fails:
  "message_states (run_service_ops ops new_messaging_service) i = Some st \<Longrightarrow>
   attempts st \<le> 1 \<and> ms_state st \<noteq> FAILED"
proof -
  have "never_failed new_messaging_service \<and> queued_once new_messaging_service"
    by (simp add: never_failed_def queued_once_def queued_ids_def new_messaging_service_def)
  from run_service_ops_retry_inv [OF this, of ops]
  show "message_states (run_service_ops ops new_messaging_service) i = Some st \<Longrightarrow>
        attempts st \<le> 1 \<and> ms_state st \<noteq> FAILED"
    by (simp add: never_failed_def)
qed

subsection \<open>MessagingService: expiry\<close>















lemma held_states_update:
  assumes "held_undelivered x r c sv"
    and "message_states sv i = Some st"
    and "created_at st' = created_at st" and "timeout st' = timeout st"
    and "ms_state st' \<noteq> DELIVERED \<or> (i \<noteq> x)"
  shows "held_undelivered x r c (sv\<lparr>message_states := (message_states sv)(i \<mapsto> st')\<rparr>)"
  using assms unfolding held_undelivered_def by auto

















end
